theory Spec2Isabelle
  imports Main "HOL-Library.Word" "HOL-Library.AList"
begin

section \<open>The outbound TCP client of package tcp (src/tcp/client.go)\<close>

text \<open>
  The client keeps a pool of supervised connections, one per address. This theory embeds
  the functions of client.go: \<open>Send\<close>, \<open>Close\<close>, \<open>CloseAll\<close>, \<open>runAndKeepAlive\<close>,
  \<open>run\<close>, \<open>write\<close> and \<open>dial\<close>. Everything the code obtains from outside (the network, the
  handshaker, the session, the listener, contexts, the timer expiring, the choice a
  \<^verbatim>\<open>select\<close> makes between ready cases) is an explicit input, and every call the code makes
  on a collaborator is recorded, in order, in a list of events. Calls on the logger are
  left out: they do not influence control flow.
\<close>

subsection \<open>Wire messages, errors, outcomes\<close>

text \<open>
  Modelled from the spec: the declarations of package wire (\<open>wire.Version\<close>, \<open>wire.Type\<close>
  and their constants) are not in client.go. The spec gives the version as one of
  \<open>V1, \<dots>\<close> and the type as one of \<open>Ping, Push, Pull, PingAck, PushAck, PullAck, \<dots>\<close>;
  the last constructor of each datatype stands for every other value of the numeric type.
\<close>

datatype version = V1 | VersionOther nat

datatype mtype = Ping | PingAck | Push | PushAck | Pull | PullAck | TypeOther nat

type_synonym bytes = "8 word list"

record message =
  Version :: version
  Type :: mtype
  Data :: bytes

text \<open>Go's \<open>int\<close> on a 64-bit platform; comparisons on it are signed.\<close>

type_synonym go_int = "64 word"

text \<open>
  \<open>ClientOptions\<close> without its logger. The two durations are numbers of
  nanoseconds; the model never computes with them.
\<close>

record ClientOptions =
  TimeToLive :: int
  TimeToDial :: int
  MaxDialAttempts :: go_int
  MaxCapacity :: go_int
  MaxConnections :: go_int

text \<open>
  Errors. \<open>Wrap p e\<close> is \<^verbatim>\<open>fmt.Errorf("p: %v", e)\<close>, \<open>Errorf s\<close> is
  \<^verbatim>\<open>fmt.Errorf\<close> of a constant text, the three \<open>Checking\<close> constructors are the three
  errors of the response checks in \<open>write\<close>, \<open>Context c\<close> is \<^verbatim>\<open>ctx.Err()\<close> of a
  context that is done (one of the two values the context package documents), and
  \<open>External s\<close> is an error produced by a collaborator.
\<close>

datatype ctx_error = Canceled | DeadlineExceeded

datatype error =
    External string
  | Context ctx_error
  | Errorf string
  | Wrap string error
  | CheckingVersion version
  | CheckingClientType mtype
  | CheckingType mtype

text \<open>
  A call returns a value, panics, or is still blocked when the inputs describing the
  environment end.
\<close>

datatype 'a outcome = Returns 'a | Panics string | Blocked

subsection \<open>Collaborators\<close>

text \<open>
  Modelled from the spec: the interfaces \<open>handshake.Session\<close> and \<open>wire.Listener\<close> are
  declared outside client.go. The records have the methods that client.go calls, with
  the signatures the spec gives them; a remote identity is a byte string here.
\<close>

type_synonym signatory = bytes

record session =
  Encrypt :: "bytes \<Rightarrow> error + bytes"
  Decrypt :: "bytes \<Rightarrow> error + bytes"
  RemoteSignatory :: signatory

record listener =
  DidReceivePingAck :: "version \<Rightarrow> bytes \<Rightarrow> signatory \<Rightarrow> error option"
  DidReceivePushAck :: "version \<Rightarrow> bytes \<Rightarrow> signatory \<Rightarrow> error option"
  DidReceivePullAck :: "version \<Rightarrow> bytes \<Rightarrow> signatory \<Rightarrow> error option"

text \<open>
  What the buffered connection does during one exchange: the error (if any) of
  \<open>msg.Marshal\<close>, of \<open>rw.Flush\<close>, and the error or the message read by
  \<open>response.Unmarshal\<close>.
\<close>

record rw_io =
  marshal_res :: "error option"
  flush_res :: "error option"
  unmarshal_res :: "error + message"

type_synonym netconn = nat

datatype event =
    EvDialContext string go_int
  | EvWaitInnerDone
  | EvHandshake netconn
  | EvConnClose netconn
  | EvSetDeadline netconn
  | EvEncrypt bytes
  | EvMarshal message
  | EvFlush
  | EvUnmarshal
  | EvDecrypt bytes
  | EvListener mtype version bytes signatory
  | EvDequeue message
  | EvTimerStop bool
  | EvTimerDrain
  | EvTimerReset int
  | EvPoolClose string

text \<open>\<open>after t r\<close> puts the events \<open>t\<close> in front of those of \<open>r\<close>.\<close>

definition after :: "event list \<Rightarrow> 'a \<times> event list \<Rightarrow> 'a \<times> event list" where
  "after t r = (fst r, t @ snd r)"

subsection \<open>The framed exchange: \<open>write\<close>\<close>

text \<open>The last switch of \<open>write\<close>: dispatch of the acknowledgement to the listener.\<close>

definition handle_ack ::
  "listener \<Rightarrow> session \<Rightarrow> message \<Rightarrow> error option outcome \<times> event list" where
  "handle_ack lis s response =
     (let ev = [EvListener (Type response) (Version response) (Data response) (RemoteSignatory s)];
          done = (\<lambda>err. case err of
                     Some e \<Rightarrow> (Returns (Some (Wrap ''handling response'' e)), ev)
                   | None \<Rightarrow> (Returns None, ev))
      in case Type response of
           PingAck \<Rightarrow> done (DidReceivePingAck lis (Version response) (Data response) (RemoteSignatory s))
         | PushAck \<Rightarrow> done (DidReceivePushAck lis (Version response) (Data response) (RemoteSignatory s))
         | PullAck \<Rightarrow> done (DidReceivePullAck lis (Version response) (Data response) (RemoteSignatory s))
         | _ \<Rightarrow> (Panics ''unreachable'', []))"

text \<open>The two switches on the header of the response; \<open>None\<close> when both pass.\<close>

definition check_response :: "message \<Rightarrow> error option" where
  "check_response response =
     (case Version response of
        V1 \<Rightarrow>
          (case Type response of
             PingAck \<Rightarrow> None
           | PushAck \<Rightarrow> None
           | PullAck \<Rightarrow> None
           | Ping \<Rightarrow> Some (CheckingClientType (Type response))
           | Push \<Rightarrow> Some (CheckingClientType (Type response))
           | Pull \<Rightarrow> Some (CheckingClientType (Type response))
           | TypeOther _ \<Rightarrow> Some (CheckingType (Type response)))
      | VersionOther _ \<Rightarrow> Some (CheckingVersion (Version response)))"

text \<open>Reading, checking, decrypting and handling the response (the second half of \<open>write\<close>).\<close>

definition await_ack ::
  "listener \<Rightarrow> session \<Rightarrow> rw_io \<Rightarrow> error option outcome \<times> event list" where
  "await_ack lis s rw =
     (case unmarshal_res rw of
        Inl err \<Rightarrow> (Returns (Some (Wrap ''unmarshaling response'' err)), [EvUnmarshal])
      | Inr response \<Rightarrow>
          (case check_response response of
             Some err \<Rightarrow> (Returns (Some err), [EvUnmarshal])
           | None \<Rightarrow>
               (case Decrypt s (Data response) of
                  Inl err \<Rightarrow>
                    (Returns (Some (Wrap ''decrypting response'' err)),
                     [EvUnmarshal, EvDecrypt (Data response)])
                | Inr plain \<Rightarrow>
                    after [EvUnmarshal, EvDecrypt (Data response)]
                      (handle_ack lis s (response\<lparr>Data := plain\<rparr>)))))"

definition "write" ::
  "listener \<Rightarrow> session \<Rightarrow> rw_io \<Rightarrow> message \<Rightarrow> error option outcome \<times> event list" where
  "write lis s rw msg =
     (case Encrypt s (Data msg) of
        Inl err \<Rightarrow> (Returns (Some (Wrap ''encrypting message'' err)), [EvEncrypt (Data msg)])
      | Inr cipher \<Rightarrow>
          (case marshal_res rw of
             Some err \<Rightarrow>
               (Returns (Some (Wrap ''marshaling message'' err)),
                [EvEncrypt (Data msg), EvMarshal (msg\<lparr>Data := cipher\<rparr>)])
           | None \<Rightarrow>
               (case flush_res rw of
                  Some err \<Rightarrow>
                    (Returns (Some (Wrap ''flushing message'' err)),
                     [EvEncrypt (Data msg), EvMarshal (msg\<lparr>Data := cipher\<rparr>), EvFlush])
                | None \<Rightarrow>
                    after [EvEncrypt (Data msg), EvMarshal (msg\<lparr>Data := cipher\<rparr>), EvFlush]
                      (await_ack lis s rw))))"

subsection \<open>The dial loop: \<open>dial\<close>\<close>

text \<open>
  One element of the list given to \<open>dial\<close> describes what one iteration of its loop
  meets: \<open>ctx_err\<close> is \<^verbatim>\<open>dialCtx.Err()\<close> when \<^verbatim>\<open>dialCtx.Done()\<close> is closed at the top of
  the iteration (the caller's context was cancelled or TimeToLive has passed),
  \<open>dial_res\<close> is the result of \<^verbatim>\<open>DialContext\<close>, \<open>handshake_res\<close> the pair returned by
  \<^verbatim>\<open>Handshake\<close>. When the list ends the loop has not returned yet.
\<close>

record dial_io =
  ctx_err :: "ctx_error option"
  dial_res :: "error + netconn"
  handshake_res :: "session option \<times> error option"

fun dial_loop ::
  "ClientOptions \<Rightarrow> string \<Rightarrow> go_int \<Rightarrow> dial_io list \<Rightarrow>
     (error + netconn \<times> session) outcome \<times> event list" where
  "dial_loop opts addr numDialAttempts [] = (Blocked, [])"
| "dial_loop opts addr numDialAttempts (io # ios) =
     (case ctx_err io of
        Some err \<Rightarrow> (Returns (Inl (Context err)), [])
      | None \<Rightarrow>
          (let numDialAttempts = numDialAttempts + 1 in
           case dial_res io of
             Inl err \<Rightarrow>
               (if word_sle (MaxDialAttempts opts) numDialAttempts
                then (Returns (Inl (Wrap ''dialing: exceeded max dial attempts'' err)),
                      [EvDialContext addr numDialAttempts, EvWaitInnerDone])
                else after [EvDialContext addr numDialAttempts, EvWaitInnerDone]
                       (dial_loop opts addr numDialAttempts ios))
           | Inr conn \<Rightarrow>
               (case handshake_res io of
                  (_, Some err) \<Rightarrow>
                    after [EvDialContext addr numDialAttempts, EvHandshake conn, EvConnClose conn]
                      (dial_loop opts addr numDialAttempts ios)
                | (None, None) \<Rightarrow>
                    after [EvDialContext addr numDialAttempts, EvHandshake conn, EvConnClose conn]
                      (dial_loop opts addr numDialAttempts ios)
                | (Some s, None) \<Rightarrow>
                    (Returns (Inr (conn, s)),
                     [EvDialContext addr numDialAttempts, EvHandshake conn]))))"

definition dial ::
  "ClientOptions \<Rightarrow> string \<Rightarrow> dial_io list \<Rightarrow>
     (error + netconn \<times> session) outcome \<times> event list" where
  "dial opts addr ios = dial_loop opts addr 0 ios"

subsection \<open>The idle deadline: a \<open>time.Timer\<close>\<close>

text \<open>
  A timer is \<open>running\<close> until it expires or is stopped; when it expires, a value is put
  in its channel \<open>C\<close> (\<open>pending\<close>) until somebody receives it. \<open>Stop\<close> reports whether
  the call stopped a running timer.
\<close>

record timer =
  running :: bool
  pending :: bool

definition NewTimer :: timer where
  "NewTimer = \<lparr>running = True, pending = False\<rparr>"

definition expire :: "timer \<Rightarrow> timer" where
  "expire t = (if running t then \<lparr>running = False, pending = True\<rparr> else t)"

definition Stop :: "timer \<Rightarrow> bool \<times> timer" where
  "Stop t = (running t, t\<lparr>running := False\<rparr>)"

definition Reset :: "timer \<Rightarrow> timer" where
  "Reset t = t\<lparr>running := True\<rparr>"

text \<open>
  Lines 315 to 318 of \<open>run\<close>: stop the deadline, receive from its channel when \<open>Stop\<close>
  reported false, reset it to TimeToLive. The receive blocks for ever when the channel
  is empty; the result is then \<open>None\<close>.
\<close>

definition reset_deadline :: "ClientOptions \<Rightarrow> timer \<Rightarrow> timer option \<times> event list" where
  "reset_deadline opts deadline =
     (let (stopped, deadline) = Stop deadline in
      if stopped
      then (Some (Reset deadline), [EvTimerStop True, EvTimerReset (TimeToLive opts)])
      else if pending deadline
      then (Some (Reset (deadline\<lparr>pending := False\<rparr>)),
            [EvTimerStop False, EvTimerDrain, EvTimerReset (TimeToLive opts)])
      else (None, [EvTimerStop False]))"

subsection \<open>One connection: \<open>run\<close>\<close>

text \<open>
  One element of the list given to the message loop describes one pass through its
  \<^verbatim>\<open>select\<close>: whether the deadline expired since the previous pass, the case the
  \<^verbatim>\<open>select\<close> takes (\<open>Recv msg ok\<close> is \<^verbatim>\<open>msg, ok := <-ch\<close>), the error of
  \<^verbatim>\<open>conn.SetDeadline\<close> and what the connection does during the exchange.
\<close>

datatype select_case = CtxDone ctx_error | DeadlineC | Recv message bool

record loop_io =
  expires :: bool
  chosen :: select_case
  set_deadline_res :: "error option"
  exchange :: rw_io

type_synonym run_result = "(message option \<times> error option) outcome \<times> timer \<times> event list"

definition after3 :: "event list \<Rightarrow> run_result \<Rightarrow> run_result" where
  "after3 t r = (fst r, fst (snd r), t @ snd (snd r))"

fun message_loop ::
  "ClientOptions \<Rightarrow> listener \<Rightarrow> session \<Rightarrow> netconn \<Rightarrow> timer \<Rightarrow> loop_io list \<Rightarrow> run_result" where
  "message_loop opts lis s conn deadline [] = (Blocked, deadline, [])"
| "message_loop opts lis s conn deadline (io # ios) =
     (let deadline = (if expires io then expire deadline else deadline) in
      case chosen io of
        CtxDone err \<Rightarrow> (Returns (None, Some (Wrap ''killing connection'' (Context err))), deadline, [])
      | DeadlineC \<Rightarrow>
          (if pending deadline
           then (Returns (None, Some (Errorf ''killing connection: time-to-live expired'')),
                 deadline\<lparr>pending := False\<rparr>, [])
           else (Blocked, deadline, []))
      | Recv msg ok \<Rightarrow>
          (if \<not> ok then (Panics ''channel is closed'', deadline, [])
           else
             (case reset_deadline opts deadline of
                (None, t) \<Rightarrow> (Blocked, deadline\<lparr>running := False\<rparr>, EvDequeue msg # t)
              | (Some deadline, t) \<Rightarrow>
                  (case set_deadline_res io of
                     Some err \<Rightarrow>
                       (Returns (Some msg, None), deadline, EvDequeue msg # t @ [EvSetDeadline conn])
                   | None \<Rightarrow>
                       (case write lis s (exchange io) msg of
                          (Returns (Some err), tw) \<Rightarrow>
                            (Returns (Some msg, None), deadline,
                             EvDequeue msg # t @ [EvSetDeadline conn] @ tw)
                        | (Returns None, tw) \<Rightarrow>
                            after3 (EvDequeue msg # t @ [EvSetDeadline conn] @ tw)
                              (message_loop opts lis s conn deadline ios)
                        | (Panics p, tw) \<Rightarrow>
                            (Panics p, deadline, EvDequeue msg # t @ [EvSetDeadline conn] @ tw)
                        | (Blocked, tw) \<Rightarrow>
                            (Blocked, deadline, EvDequeue msg # t @ [EvSetDeadline conn] @ tw))))))"

text \<open>
  What one call of \<open>run\<close> meets: the iterations of its dial loop, the connection's
  behaviour during the resend of the last message, and the passes of the message loop.
\<close>

record run_io =
  dialing :: "dial_io list"
  resend :: rw_io
  looping :: "loop_io list"

text \<open>
  The part of \<open>run\<close> after a successful dial, without the deferred \<^verbatim>\<open>conn.Close()\<close>.
\<close>

definition run_connected ::
  "ClientOptions \<Rightarrow> listener \<Rightarrow> session \<Rightarrow> netconn \<Rightarrow> timer \<Rightarrow> message option \<Rightarrow> run_io \<Rightarrow>
     run_result" where
  "run_connected opts lis s conn deadline lastMessage io =
     (case lastMessage of
        None \<Rightarrow> message_loop opts lis s conn deadline (looping io)
      | Some m \<Rightarrow>
          (case write lis s (resend io) m of
             (Returns (Some err), tw) \<Rightarrow> (Returns (lastMessage, None), deadline, tw)
           | (Returns None, tw) \<Rightarrow> after3 tw (message_loop opts lis s conn deadline (looping io))
           | (Panics p, tw) \<Rightarrow> (Panics p, deadline, tw)
           | (Blocked, tw) \<Rightarrow> (Blocked, deadline, tw)))"

text \<open>The deferred \<^verbatim>\<open>conn.Close()\<close> runs when the function returns or panics.\<close>

definition closing :: "netconn \<Rightarrow> run_result \<Rightarrow> run_result" where
  "closing conn r =
     (case fst r of
        Blocked \<Rightarrow> r
      | _ \<Rightarrow> (fst r, fst (snd r), snd (snd r) @ [EvConnClose conn]))"

definition run ::
  "ClientOptions \<Rightarrow> listener \<Rightarrow> timer \<Rightarrow> string \<Rightarrow> message option \<Rightarrow> run_io \<Rightarrow> run_result" where
  "run opts lis deadline addr lastMessage io =
     (case dial opts addr (dialing io) of
        (Returns (Inl err), t) \<Rightarrow> (Returns (None, Some (Wrap ''connecting'' err)), deadline, t)
      | (Returns (Inr (conn, s)), t) \<Rightarrow>
          after3 t (closing conn (run_connected opts lis s conn deadline lastMessage io))
      | (Panics p, t) \<Rightarrow> (Panics p, deadline, t)
      | (Blocked, t) \<Rightarrow> (Blocked, deadline, t))"

subsection \<open>The supervisor: the goroutine started by \<open>runAndKeepAlive\<close>\<close>

text \<open>
  One element of the list describes one pass through the outer \<^verbatim>\<open>select\<close>: whether the
  supervisor's context is cancelled, whether the deadline expired since it was last
  looked at, the case taken when both are ready, and what the call of \<open>run\<close> meets in
  the default case. The deferred \<^verbatim>\<open>client.Close(addr)\<close> is the event \<open>EvPoolClose\<close>.
\<close>

record keep_io =
  k_cancelled :: bool
  k_expires :: bool
  k_pick_ctx :: bool
  k_run :: run_io

fun keepAlive ::
  "ClientOptions \<Rightarrow> listener \<Rightarrow> string \<Rightarrow> timer \<Rightarrow> message option \<Rightarrow> keep_io list \<Rightarrow>
     unit outcome \<times> event list" where
  "keepAlive opts lis addr deadline lastMessageSent [] = (Blocked, [])"
| "keepAlive opts lis addr deadline lastMessageSent (io # ios) =
     (let deadline = (if k_expires io then expire deadline else deadline) in
      if k_cancelled io \<and> (\<not> pending deadline \<or> k_pick_ctx io)
      then (Returns (), [EvPoolClose addr])
      else if pending deadline
      then (Returns (), [EvPoolClose addr])
      else
        (case run opts lis deadline addr lastMessageSent (k_run io) of
           (Returns (lastMessageSent, Some err), deadline, t) \<Rightarrow>
             (Returns (), t @ [EvPoolClose addr])
         | (Returns (lastMessageSent, None), deadline, t) \<Rightarrow>
             after t (keepAlive opts lis addr deadline lastMessageSent ios)
         | (Panics p, deadline, t) \<Rightarrow> (Panics p, t @ [EvPoolClose addr])
         | (Blocked, deadline, t) \<Rightarrow> (Blocked, t)))"

definition supervisor ::
  "ClientOptions \<Rightarrow> listener \<Rightarrow> string \<Rightarrow> keep_io list \<Rightarrow> unit outcome \<times> event list" where
  "supervisor opts lis addr ios = keepAlive opts lis addr NewTimer None ios"

subsection \<open>The pool: \<open>Send\<close>, \<open>Close\<close>, \<open>CloseAll\<close>\<close>

text \<open>
  A \<open>conn\<close> holds a channel and a cancel function; here the channel is the index of its
  queue in \<open>chans\<close>, the cancel function the index of the context it cancels. The Go map
  \<open>connsByAddr\<close> is a list of pairs read with \<open>map_of\<close>, written with \<open>AList.update\<close>
  and \<open>AList.delete\<close>; its \<^verbatim>\<open>len\<close> is the length of the list. \<open>mu_locked\<close> is the state
  of \<open>connsByAddrMu\<close> between two calls, \<open>started\<close> lists the supervisor goroutines
  spawned so far. The handshaker and the listener of the client are arguments of the
  supervisor above.
\<close>

record conn =
  ch :: nat
  cancel :: nat

record chan =
  buf :: "message list"
  capacity :: nat

record Client =
  opts :: ClientOptions
  mu_locked :: bool
  connsByAddr :: "(string \<times> conn) list"
  chans :: "nat \<Rightarrow> chan option"
  cancelled :: "nat \<Rightarrow> bool"
  started :: "(string \<times> conn) list"

definition NewClient :: "ClientOptions \<Rightarrow> Client" where
  "NewClient options =
     \<lparr>opts = options, mu_locked = False, connsByAddr = [], chans = (\<lambda>_. None),
      cancelled = (\<lambda>_. False), started = []\<rparr>"

text \<open>
  \<open>runAndKeepAlive\<close> makes the channel, the context, starts the goroutine and returns
  the handle. \<^verbatim>\<open>make(chan wire.Message, size)\<close> panics when the size is negative and
  when the buffer would pass the limit of the allocator; \<open>chan_max\<close> is the largest
  size it accepts, a constant of the platform that client.go does not name. \<open>Send\<close>
  calls \<open>runAndKeepAlive\<close> with the mutex held.
\<close>

definition runAndKeepAlive :: "int \<Rightarrow> string \<Rightarrow> Client \<Rightarrow> (conn \<times> Client) outcome" where
  "runAndKeepAlive chan_max addr client =
     (if sint (MaxCapacity (opts client)) < 0 \<or> chan_max < sint (MaxCapacity (opts client))
      then Panics ''makechan: size out of range''
      else
        (let n = length (started client);
             c = \<lparr>ch = n, cancel = n\<rparr>
         in Returns (c, client\<lparr>
              chans := (chans client)(n \<mapsto> \<lparr>buf = [], capacity = nat (sint (MaxCapacity (opts client)))\<rparr>),
              started := started client @ [(addr, c)]\<rparr>)))"

text \<open>
  What one call of \<open>Send\<close> meets. \<open>s_chan_max\<close> is the largest size \<^verbatim>\<open>make\<close> accepts
  for the queue. The other fields describe the \<^verbatim>\<open>select\<close> at the end of \<open>Send\<close>:
  \<open>s_ctx\<close> is \<^verbatim>\<open>ctx.Err()\<close> when \<^verbatim>\<open>ctx.Done()\<close> is closed, \<open>s_receiver\<close> tells whether
  the supervisor is waiting to receive from the channel, \<open>s_pick_send\<close> is the case Go's
  runtime picks when both cases can proceed (it picks one at random). The send can
  proceed when the buffer has room or a receiver is waiting; the accepted message is
  appended to \<open>buf\<close>.
\<close>

record send_io =
  s_chan_max :: int
  s_ctx :: "ctx_error option"
  s_receiver :: bool
  s_pick_send :: bool

definition can_send :: "send_io \<Rightarrow> nat \<Rightarrow> Client \<Rightarrow> bool" where
  "can_send io c client =
     (case chans client c of
        None \<Rightarrow> False
      | Some q \<Rightarrow> length (buf q) < capacity q \<or> s_receiver io)"

definition chan_send :: "nat \<Rightarrow> message \<Rightarrow> Client \<Rightarrow> Client" where
  "chan_send c msg client =
     (case chans client c of
        None \<Rightarrow> client
      | Some q \<Rightarrow> client\<lparr>chans := (chans client)(c \<mapsto> q\<lparr>buf := buf q @ [msg]\<rparr>)\<rparr>)"

definition enqueue ::
  "send_io \<Rightarrow> conn \<Rightarrow> message \<Rightarrow> Client \<Rightarrow> error option outcome \<times> Client" where
  "enqueue io conn msg client =
     (case s_ctx io of
        Some err \<Rightarrow>
          (if can_send io (ch conn) client \<and> s_pick_send io
           then (Returns None, chan_send (ch conn) msg client)
           else (Returns (Some (Context err)), client))
      | None \<Rightarrow>
          (if can_send io (ch conn) client
           then (Returns None, chan_send (ch conn) msg client)
           else (Blocked, client)))"

text \<open>
  The same \<^verbatim>\<open>select\<close> on the zero \<open>conn\<close>, which a read of a missing key gives: a nil
  channel is never ready.
\<close>

definition enqueue_nil :: "send_io \<Rightarrow> Client \<Rightarrow> error option outcome \<times> Client" where
  "enqueue_nil io client =
     (case s_ctx io of
        Some err \<Rightarrow> (Returns (Some (Context err)), client)
      | None \<Rightarrow> (Blocked, client))"

definition Send ::
  "send_io \<Rightarrow> string \<Rightarrow> message \<Rightarrow> Client \<Rightarrow> error option outcome \<times> Client" where
  "Send io addr msg client =
     (if mu_locked client then (Blocked, client)
      else
        (case map_of (connsByAddr client) addr of
           Some conn \<Rightarrow> enqueue io conn msg client
         | None \<Rightarrow>
             (if sint (MaxConnections (opts client)) \<le> int (length (connsByAddr client))
              then (Returns (Some (Errorf ''max outbound connections exceeded'')), client)
              else
                (case runAndKeepAlive (s_chan_max io) addr client of
                   Returns (c, client) \<Rightarrow>
                     (let client = client\<lparr>connsByAddr := AList.update addr c (connsByAddr client)\<rparr>
                      in case map_of (connsByAddr client) addr of
                           Some conn \<Rightarrow> enqueue io conn msg client
                         | None \<Rightarrow> enqueue_nil io client)
                 | Panics p \<Rightarrow> (Panics p, client\<lparr>mu_locked := True\<rparr>)
                 | Blocked \<Rightarrow> (Blocked, client\<lparr>mu_locked := True\<rparr>)))))"

definition Close :: "string \<Rightarrow> Client \<Rightarrow> unit outcome \<times> Client" where
  "Close addr client =
     (if mu_locked client then (Blocked, client)
      else
        (case map_of (connsByAddr client) addr of
           Some conn \<Rightarrow>
             (Returns (), client\<lparr>
                cancelled := (cancelled client)(cancel conn := True),
                connsByAddr := AList.delete addr (connsByAddr client)\<rparr>)
         | None \<Rightarrow> (Returns (), client)))"

definition CloseAll :: "Client \<Rightarrow> unit outcome \<times> Client" where
  "CloseAll client =
     (if mu_locked client then (Blocked, client)
      else
        (Returns (), client\<lparr>
           cancelled := fold (\<lambda>(a, conn) f. f(cancel conn := True)) (connsByAddr client) (cancelled client),
           connsByAddr := []\<rparr>))"

text \<open>
  A sequence of calls on one client. The self-removal of a retiring supervisor is a
  call of \<open>Close\<close> like any other. The pool is read and written under the mutex only,
  and the \<^verbatim>\<open>select\<close> of \<open>Send\<close> does not touch it: a call of another goroutine
  between the admission and the \<^verbatim>\<open>select\<close> of a \<open>Send\<close> leaves the pool as if it came
  after that \<open>Send\<close>.
\<close>

datatype call = CallSend send_io string message | CallClose string | CallCloseAll

fun call_client :: "call \<Rightarrow> Client \<Rightarrow> Client" where
  "call_client (CallSend io addr msg) client = snd (Send io addr msg client)"
| "call_client (CallClose addr) client = snd (Close addr client)"
| "call_client CallCloseAll client = snd (CloseAll client)"

definition calls :: "call list \<Rightarrow> Client \<Rightarrow> Client" where
  "calls cs client = fold call_client cs client"

subsection \<open>Reading the events\<close>

text \<open>
  The discipline of the idle deadline as an automaton over the events: a dequeue must
  be followed by \<open>Stop\<close>, by a receive from the timer's channel when \<open>Stop\<close> reported
  false, and by \<open>Reset\<close> to the given duration; \<open>Stop\<close>, the receive and \<open>Reset\<close> occur
  nowhere else. \<open>rearm_run\<close> gives the state after a list of events, \<open>None\<close> when the
  discipline is broken.
\<close>

datatype rearm = Quiet | Dequeued | Fired | Stopped

definition rearm_step :: "int \<Rightarrow> rearm \<Rightarrow> event \<Rightarrow> rearm option" where
  "rearm_step ttl st e =
     (case st of
        Quiet \<Rightarrow>
          (case e of
             EvDequeue m \<Rightarrow> Some Dequeued
           | EvTimerStop b \<Rightarrow> None
           | EvTimerDrain \<Rightarrow> None
           | EvTimerReset d \<Rightarrow> None
           | _ \<Rightarrow> Some Quiet)
      | Dequeued \<Rightarrow>
          (case e of
             EvTimerStop b \<Rightarrow> Some (if b then Stopped else Fired)
           | _ \<Rightarrow> None)
      | Fired \<Rightarrow>
          (case e of
             EvTimerDrain \<Rightarrow> Some Stopped
           | _ \<Rightarrow> None)
      | Stopped \<Rightarrow>
          (case e of
             EvTimerReset d \<Rightarrow> (if d = ttl then Some Quiet else None)
           | _ \<Rightarrow> None))"

primrec rearm_run :: "int \<Rightarrow> rearm \<Rightarrow> event list \<Rightarrow> rearm option" where
  "rearm_run ttl st [] = Some st"
| "rearm_run ttl st (e # es) =
     (case rearm_step ttl st e of None \<Rightarrow> None | Some st' \<Rightarrow> rearm_run ttl st' es)"

definition timer_event :: "event \<Rightarrow> bool" where
  "timer_event e =
     (case e of
        EvDequeue m \<Rightarrow> True
      | EvTimerStop b \<Rightarrow> True
      | EvTimerDrain \<Rightarrow> True
      | EvTimerReset d \<Rightarrow> True
      | _ \<Rightarrow> False)"



definition quiet_event :: "event \<Rightarrow> bool" where
  "quiet_event e =
     (case e of
        EvEncrypt d \<Rightarrow> False
      | EvDequeue m \<Rightarrow> False
      | EvTimerStop b \<Rightarrow> False
      | EvTimerDrain \<Rightarrow> False
      | EvTimerReset d \<Rightarrow> False
      | _ \<Rightarrow> True)"


text \<open>
  The states of the deadline that the supervisor hands to \<open>run\<close>: the timer is running with
  an empty channel, or it has expired and its value has not been received.
\<close>

definition armed :: "timer \<Rightarrow> bool" where
  "armed d = (running d \<noteq> pending d)"

subsection \<open>Inputs used in the examples\<close>

definition DefaultClientOptions :: ClientOptions where
  "DefaultClientOptions =
     \<lparr>TimeToLive = 3600000000000, TimeToDial = 15000000000, MaxDialAttempts = 1,
      MaxCapacity = 4096, MaxConnections = 128\<rparr>"

definition plain_session :: session where
  "plain_session = \<lparr>Encrypt = Inr, Decrypt = Inr, RemoteSignatory = []\<rparr>"

definition accepting_listener :: listener where
  "accepting_listener =
     \<lparr>DidReceivePingAck = (\<lambda>v d s. None), DidReceivePushAck = (\<lambda>v d s. None),
      DidReceivePullAck = (\<lambda>v d s. None)\<rparr>"

definition ping :: message where
  "ping = \<lparr>Version = V1, Type = Ping, Data = [1, 2, 3]\<rparr>"

definition ping_ack :: message where
  "ping_ack = \<lparr>Version = V1, Type = PingAck, Data = []\<rparr>"

definition bad_version :: message where
  "bad_version = \<lparr>Version = VersionOther 2, Type = PingAck, Data = []\<rparr>"

definition answers :: "message \<Rightarrow> rw_io" where
  "answers r = \<lparr>marshal_res = None, flush_res = None, unmarshal_res = Inr r\<rparr>"

definition connects :: "netconn \<Rightarrow> dial_io" where
  "connects c = \<lparr>ctx_err = None, dial_res = Inr c, handshake_res = (Some plain_session, None)\<rparr>"

definition refused :: dial_io where
  "refused =
     \<lparr>ctx_err = None, dial_res = Inl (External ''connection refused''),
      handshake_res = (None, None)\<rparr>"

definition unauthenticated :: "netconn \<Rightarrow> dial_io" where
  "unauthenticated c =
     \<lparr>ctx_err = None, dial_res = Inr c,
      handshake_res = (None, Some (External ''bad signature''))\<rparr>"

definition receives :: "bool \<Rightarrow> message \<Rightarrow> message \<Rightarrow> loop_io" where
  "receives fired m r =
     \<lparr>expires = fired, chosen = Recv m True, set_deadline_res = None, exchange = answers r\<rparr>"

definition rejected_run :: run_io where
  "rejected_run =
     \<lparr>dialing = [connects 7], resend = answers ping_ack,
      looping = [receives False ping bad_version]\<rparr>"

definition resending_run :: run_io where
  "resending_run =
     \<lparr>dialing = [connects 8], resend = answers bad_version,
      looping = [receives True ping ping_ack]\<rparr>"

definition pass :: "run_io \<Rightarrow> keep_io" where
  "pass r = \<lparr>k_cancelled = False, k_expires = False, k_pick_ctx = False, k_run = r\<rparr>"

subsection \<open>Names for the pool's properties\<close>

definition CapacityExceeded :: error where
  "CapacityExceeded = Errorf ''max outbound connections exceeded''"

text \<open>
  The handle that \<open>runAndKeepAlive\<close> returns on a client, and the client as lines 156
  and 157 of \<open>Send\<close> leave it: the queue made, the supervisor started, the handle stored
  under the address.
\<close>

definition fresh_conn :: "Client \<Rightarrow> conn" where
  "fresh_conn client = \<lparr>ch = length (started client), cancel = length (started client)\<rparr>"

definition admitted :: "string \<Rightarrow> Client \<Rightarrow> Client" where
  "admitted addr client =
     client\<lparr>chans := (chans client)(length (started client) \<mapsto>
               \<lparr>buf = [], capacity = nat (sint (MaxCapacity (opts client)))\<rparr>),
            started := started client @ [(addr, fresh_conn client)],
            connsByAddr := AList.update addr (fresh_conn client) (connsByAddr client)\<rparr>"

text \<open>The calls of the examples meet a limit of \<open>2 ^ 43 - 3\<close> messages for a queue.\<close>

definition racing :: send_io where
  "racing =
     \<lparr>s_chan_max = 8796093022205, s_ctx = Some Canceled, s_receiver = False, s_pick_send = True\<rparr>"

definition losing :: send_io where
  "losing =
     \<lparr>s_chan_max = 8796093022205, s_ctx = Some Canceled, s_receiver = False, s_pick_send = False\<rparr>"

definition waiting :: send_io where
  "waiting =
     \<lparr>s_chan_max = 8796093022205, s_ctx = None, s_receiver = False, s_pick_send = True\<rparr>"

definition oversized :: ClientOptions where
  "oversized = DefaultClientOptions\<lparr>MaxCapacity := 4611686018427387904\<rparr>"

section \<open>Properties\<close>

subsection \<open>Events and results of the parts\<close>

lemma fst_after [simp]: "fst (after t r) = fst r"
  by (simp add: after_def)

lemma snd_after [simp]: "snd (after t r) = t @ snd r"
  by (simp add: after_def)

lemma fst_after3 [simp]: "fst (after3 t r) = fst r"
  by (simp add: after3_def)

lemma timer_after3 [simp]: "fst (snd (after3 t r)) = fst (snd r)"
  by (simp add: after3_def)

lemma trace_after3 [simp]: "snd (snd (after3 t r)) = t @ snd (snd r)"
  by (simp add: after3_def)

lemma fst_closing [simp]: "fst (closing c r) = fst r"
  by (simp add: closing_def split: outcome.split)

lemma timer_closing [simp]: "fst (snd (closing c r)) = fst (snd r)"
  by (simp add: closing_def split: outcome.split)

lemma quiet_not_timer: "quiet_event e \<Longrightarrow> \<not> timer_event e"
  by (cases e) (simp_all add: quiet_event_def timer_event_def)





lemma handle_ack_quiet: "\<forall>e \<in> set (snd (handle_ack lis s r)). quiet_event e"
  by (simp add: handle_ack_def Let_def quiet_event_def split: mtype.split option.split)

lemma await_ack_quiet: "\<forall>e \<in> set (snd (await_ack lis s rw)). quiet_event e"
  using handle_ack_quiet [of lis s]
  by (simp add: await_ack_def quiet_event_def split: sum.split option.split)

lemma write_trace:
  "\<exists>t. snd (write lis s rw msg) = EvEncrypt (Data msg) # t \<and> (\<forall>e \<in> set t. quiet_event e)"
  using await_ack_quiet [of lis s rw]
  by (simp add: write_def quiet_event_def split: sum.split option.split)

lemma dial_loop_quiet: "\<forall>e \<in> set (snd (dial_loop cfg addr n ios)). quiet_event e"
  by (induction ios arbitrary: n)
     (auto simp: Let_def quiet_event_def split: option.split sum.split prod.split)

lemma check_response_None_iff:
  "check_response r = None \<longleftrightarrow> Version r = V1 \<and> Type r \<in> {PingAck, PushAck, PullAck}"
  by (simp add: check_response_def split: version.split mtype.split)

lemma await_ack_rejects:
  assumes "unmarshal_res rw = Inr r" and "check_response r = Some e"
  shows "await_ack lis s rw = (Returns (Some e), [EvUnmarshal])"
  using assms by (simp add: await_ack_def)

lemma write_rejects:
  assumes "unmarshal_res rw = Inr r"
    and "Version r \<noteq> V1 \<or> Type r \<notin> {PingAck, PushAck, PullAck}"
  shows "(\<exists>err. fst (write lis s rw msg) = Returns (Some err)) \<and>
         (\<forall>d. EvDecrypt d \<notin> set (snd (write lis s rw msg)))"
proof -
  from assms(2) obtain e where e: "check_response r = Some e"
    using check_response_None_iff [of r] by (cases "check_response r") auto
  have aw: "await_ack lis s rw = (Returns (Some e), [EvUnmarshal])"
    using assms(1) e by (rule await_ack_rejects)
  show ?thesis
    by (simp add: write_def aw split: sum.split option.split)
qed

subsection \<open>The deadline of the supervisor\<close>

lemma rearm_run_append:
  "rearm_run ttl st (t @ u) =
     (case rearm_run ttl st t of None \<Rightarrow> None | Some st' \<Rightarrow> rearm_run ttl st' u)"
  by (induction t arbitrary: st) (auto split: option.split)

lemma rearm_step_quiet: "quiet_event e \<Longrightarrow> rearm_step ttl Quiet e = Some Quiet"
  by (cases e) (simp_all add: quiet_event_def rearm_step_def)

lemma rearm_run_quiet: "\<forall>e \<in> set t. quiet_event e \<Longrightarrow> rearm_run ttl Quiet t = Some Quiet"
  by (induction t) (auto simp: rearm_step_quiet)

lemma write_rearm: "rearm_run ttl Quiet (snd (write lis s rw msg)) = Some Quiet"
proof -
  obtain t where t: "snd (write lis s rw msg) = EvEncrypt (Data msg) # t"
    and q: "\<forall>e \<in> set t. quiet_event e"
    using write_trace [of lis s rw msg] by blast
  show ?thesis
    using rearm_run_quiet [OF q, of ttl] by (simp add: t rearm_step_def)
qed

lemma armed_expire: "armed d \<Longrightarrow> armed (expire d)"
  by (auto simp: armed_def expire_def)

lemma reset_deadline_armed:
  "armed d \<Longrightarrow> \<exists>d'. running d' \<and> \<not> pending d' \<and>
     (reset_deadline cfg d = (Some d', [EvTimerStop True, EvTimerReset (TimeToLive cfg)]) \<or>
      reset_deadline cfg d
        = (Some d', [EvTimerStop False, EvTimerDrain, EvTimerReset (TimeToLive cfg)]))"
  by (auto simp: armed_def reset_deadline_def Stop_def Reset_def)

lemma rearm_run_reset:
  assumes "armed d"
  shows "\<exists>d' t. reset_deadline cfg d = (Some d', t) \<and> armed d' \<and>
           (\<forall>u. rearm_run (TimeToLive cfg) Dequeued (t @ u) = rearm_run (TimeToLive cfg) Quiet u)"
proof -
  from reset_deadline_armed [OF assms, of cfg] obtain d'
    where d': "running d'" "\<not> pending d'" and
      alt: "reset_deadline cfg d = (Some d', [EvTimerStop True, EvTimerReset (TimeToLive cfg)]) \<or>
            reset_deadline cfg d
              = (Some d', [EvTimerStop False, EvTimerDrain, EvTimerReset (TimeToLive cfg)])"
    by blast
  have a: "armed d'" using d' by (simp add: armed_def)
  from alt show ?thesis
  proof
    assume "reset_deadline cfg d = (Some d', [EvTimerStop True, EvTimerReset (TimeToLive cfg)])"
    with a show ?thesis by (simp add: rearm_step_def)
  next
    assume "reset_deadline cfg d
              = (Some d', [EvTimerStop False, EvTimerDrain, EvTimerReset (TimeToLive cfg)])"
    with a show ?thesis by (simp add: rearm_step_def)
  qed
qed

lemma message_loop_rearm:
  "armed d \<Longrightarrow>
     rearm_run (TimeToLive cfg) Quiet (snd (snd (message_loop cfg lis s c d ios))) = Some Quiet \<and>
     ((\<exists>m. fst (message_loop cfg lis s c d ios) = Returns (m, None)) \<longrightarrow>
        armed (fst (snd (message_loop cfg lis s c d ios))))"
proof (induction ios arbitrary: d)
  case Nil
  then show ?case by simp
next
  case (Cons io ios)
  define d0 where "d0 = (if expires io then expire d else d)"
  have d0: "armed d0"
    using Cons.prems by (simp add: d0_def armed_expire)
  show ?case
  proof (cases "chosen io")
    case (CtxDone e)
    then show ?thesis by (simp add: Let_def)
  next
    case DeadlineC
    then show ?thesis by (simp add: Let_def)
  next
    case (Recv msg ok)
    show ?thesis
    proof (cases ok)
      case False
      with Recv show ?thesis by (simp add: Let_def)
    next
      case True
      obtain d' t where r: "reset_deadline cfg d0 = (Some d', t)" and d': "armed d'"
        and mon: "\<And>u. rearm_run (TimeToLive cfg) Dequeued (t @ u) = rearm_run (TimeToLive cfg) Quiet u"
        using rearm_run_reset [OF d0, of cfg] by blast
      have deq: "rearm_run (TimeToLive cfg) Quiet (EvDequeue msg # t @ EvSetDeadline c # u)
                   = rearm_run (TimeToLive cfg) Quiet u" for u
        using mon [of "EvSetDeadline c # u"] by (simp add: rearm_step_def)
      have deq0: "rearm_run (TimeToLive cfg) Quiet (EvDequeue msg # t @ [EvSetDeadline c]) = Some Quiet"
        using deq [of "[]"] by simp
      have w: "rearm_run (TimeToLive cfg) Quiet (snd (write lis s (exchange io) msg)) = Some Quiet"
        by (rule write_rearm)
      have wu: "rearm_run (TimeToLive cfg) Quiet (snd (write lis s (exchange io) msg) @ u)
                  = rearm_run (TimeToLive cfg) Quiet u" for u
        by (simp add: rearm_run_append w)
      note ih = Cons.IH [OF d']
      show ?thesis
        using Recv True r d' ih deq deq0 w wu
        by (cases "write lis s (exchange io) msg"; cases "fst (write lis s (exchange io) msg)")
           (auto simp: Let_def d0_def [symmetric] simp del: rearm_run.simps
                 split: option.split outcome.split)
    qed
  qed
qed

lemma run_connected_rearm:
  assumes "armed d"
  shows "rearm_run (TimeToLive cfg) Quiet (snd (snd (run_connected cfg lis s c d lm io))) = Some Quiet \<and>
     ((\<exists>m. fst (run_connected cfg lis s c d lm io) = Returns (m, None)) \<longrightarrow>
        armed (fst (snd (run_connected cfg lis s c d lm io))))"
proof (cases lm)
  case None
  then show ?thesis
    using message_loop_rearm [OF assms] by (simp add: run_connected_def)
next
  case (Some m)
  have w: "rearm_run (TimeToLive cfg) Quiet (snd (write lis s (resend io) m)) = Some Quiet"
    by (rule write_rearm)
  show ?thesis
    using Some assms w message_loop_rearm [OF assms, of cfg lis s c "looping io"]
    by (cases "write lis s (resend io) m"; cases "fst (write lis s (resend io) m)")
       (auto simp: run_connected_def rearm_run_append split: option.split)
qed

lemma closing_rearm:
  "rearm_run ttl Quiet (snd (snd r)) = Some Quiet \<Longrightarrow>
     rearm_run ttl Quiet (snd (snd (closing c r))) = Some Quiet"
  by (simp add: closing_def rearm_run_append rearm_step_def split: outcome.split)

lemma run_rearm:
  assumes "armed d"
  shows "rearm_run (TimeToLive cfg) Quiet (snd (snd (run cfg lis d addr lm io))) = Some Quiet \<and>
     ((\<exists>m. fst (run cfg lis d addr lm io) = Returns (m, None)) \<longrightarrow>
        armed (fst (snd (run cfg lis d addr lm io))))"
proof -
  obtain r t where dl: "dial cfg addr (dialing io) = (r, t)"
    by (cases "dial cfg addr (dialing io)")
  have t: "rearm_run (TimeToLive cfg) Quiet t = Some Quiet"
    using dial_loop_quiet [of cfg addr 0 "dialing io"] dl
    by (simp add: dial_def rearm_run_quiet)
  show ?thesis
  proof (cases r)
    case (Returns x)
    show ?thesis
    proof (cases x)
      case (Inl e)
      with Returns dl t show ?thesis by (simp add: run_def)
    next
      case (Inr cs)
      obtain c s where cs: "cs = (c, s)" by (cases cs)
      have "rearm_run (TimeToLive cfg) Quiet
              (snd (snd (closing c (run_connected cfg lis s c d lm io)))) = Some Quiet"
        using run_connected_rearm [OF assms] by (intro closing_rearm) simp
      with Returns Inr cs dl t run_connected_rearm [OF assms, of cfg lis s c lm io]
      show ?thesis by (simp add: run_def rearm_run_append)
    qed
  next
    case (Panics p)
    with dl t show ?thesis by (simp add: run_def)
  next
    case Blocked
    with dl t show ?thesis by (simp add: run_def)
  qed
qed

lemma keepAlive_rearm:
  "armed d \<Longrightarrow> rearm_run (TimeToLive cfg) Quiet (snd (keepAlive cfg lis addr d lm ios)) = Some Quiet"
proof (induction ios arbitrary: d lm)
  case Nil
  then show ?case by simp
next
  case (Cons io ios)
  define d0 where "d0 = (if k_expires io then expire d else d)"
  have d0: "armed d0"
    using Cons.prems by (simp add: d0_def armed_expire)
  obtain r d' t where r: "run cfg lis d0 addr lm (k_run io) = (r, d', t)"
    by (cases "run cfg lis d0 addr lm (k_run io)")
  have t: "rearm_run (TimeToLive cfg) Quiet t = Some Quiet"
    using run_rearm [OF d0, of cfg lis addr lm "k_run io"] r by simp
  have d': "armed d'" if "r = Returns (m, None)" for m
    using run_rearm [OF d0, of cfg lis addr lm "k_run io"] r that by simp
  show ?case
  proof (cases r)
    case (Returns x)
    obtain m e where x: "x = (m, e)" by (cases x)
    show ?thesis
    proof (cases e)
      case None
      have "armed d'" using d' Returns x None by simp
      from Cons.IH [OF this, of m] Returns x None r t show ?thesis
        by (simp add: Let_def d0_def [symmetric] rearm_run_append rearm_step_def)
    next
      case (Some err)
      with Returns x r t show ?thesis
        by (simp add: Let_def d0_def [symmetric] rearm_run_append rearm_step_def)
    qed
  next
    case (Panics p)
    with r t show ?thesis
      by (simp add: Let_def d0_def [symmetric] rearm_run_append rearm_step_def)
  next
    case Blocked
    with r t show ?thesis
      by (simp add: Let_def d0_def [symmetric] rearm_run_append rearm_step_def)
  qed
qed

lemma write_failure_returns:
  "fst (write lis s rw m) = Returns (Some err) \<Longrightarrow>
     run_connected cfg lis s c d (Some m) (io\<lparr>resend := rw\<rparr>)
       = (Returns (Some m, None), d, snd (write lis s rw m))"
  by (cases "write lis s rw m") (simp add: run_connected_def)

lemma message_loop_write_failure:
  assumes "fst (write lis s rw msg) = Returns (Some err)" and "armed d"
  shows "fst (message_loop cfg lis s c d
                (lio\<lparr>chosen := Recv msg True, set_deadline_res := None, exchange := rw\<rparr> # ios))
           = Returns (Some msg, None)"
proof -
  define d0 where "d0 = (if expires lio then expire d else d)"
  have "armed d0" using assms(2) by (simp add: d0_def armed_expire)
  then obtain d' t where "reset_deadline cfg d0 = (Some d', t)"
    using rearm_run_reset [of d0 cfg] by blast
  then show ?thesis
    using assms(1) by (cases "write lis s rw msg") (simp add: Let_def d0_def [symmetric])
qed

lemma keepAlive_continues:
  assumes "\<not> k_cancelled kio" and "\<not> k_expires kio" and "\<not> pending d"
    and "run cfg lis d addr lm (k_run kio) = (Returns (Some msg, None), d', t)"
  shows "keepAlive cfg lis addr d lm (kio # kios) = after t (keepAlive cfg lis addr d' (Some msg) kios)"
  using assms by simp



subsection \<open>The framed exchange and the run step\<close>

text \<open>
  C7. In a framed exchange the response body is decrypted only after the version check
  and the type check have passed: when the response read from the connection has an
  unrecognised version or a type that is not an acknowledgement, \<open>write\<close> returns an
  error and \<open>session.Decrypt\<close> is not called at all.
\<close>

theorem write_checks_before_decrypt:
  assumes "unmarshal_res rw = Inr response"
    and "Version response \<noteq> V1 \<or> Type response \<notin> {PingAck, PushAck, PullAck}"
  shows "(\<exists>err. fst (write lis s rw msg) = Returns (Some err)) \<and>
         (\<forall>d. EvDecrypt d \<notin> set (snd (write lis s rw msg)))"
  using assms by (rule write_rejects)

theorem write_checks_before_decrypt_witness:
  "unmarshal_res (answers bad_version) = Inr bad_version \<and>
   Version bad_version \<noteq> V1 \<and>
   (\<exists>err. fst (write accepting_listener plain_session (answers bad_version) ping)
            = Returns (Some err)) \<and>
   (\<forall>d. EvDecrypt d
          \<notin> set (snd (write accepting_listener plain_session (answers bad_version) ping)))"
proof -
  have h1: "unmarshal_res (answers bad_version) = Inr bad_version"
    by (simp add: answers_def)
  have h0: "Version bad_version \<noteq> V1"
    by (simp add: bad_version_def)
  then have h2: "Version bad_version \<noteq> V1 \<or> Type bad_version \<notin> {PingAck, PushAck, PullAck}"
    by blast
  show ?thesis
    using h0 h1 write_checks_before_decrypt [OF h1 h2, of accepting_listener plain_session ping]
    by blast
qed

text \<open>
  C1, as amended. When the response of a framed exchange has an unsupported version, an
  unsupported type or a request type, \<open>write\<close> returns an error and \<open>run\<close> consumes it:
  the resend of the last message returns that message with a nil error, and so does
  any pass of the message loop that took the message from the queue (with the deadline
  running or expired and unread, as the supervisor hands it over). A nil error with a
  message makes the supervisor go round its loop again, with that message as the last
  message sent: it dials again, it does not retire.
\<close>

theorem rejected_response_is_transient:
  assumes "unmarshal_res rw = Inr response"
    and "Version response \<noteq> V1 \<or> Type response \<notin> {PingAck, PushAck, PullAck}"
  shows "(\<exists>err. fst (write lis s rw msg) = Returns (Some err)) \<and>
         fst (run_connected cfg lis s c d (Some msg) (io\<lparr>resend := rw\<rparr>))
           = Returns (Some msg, None) \<and>
         (armed d \<longrightarrow>
            fst (message_loop cfg lis s c d
                   (lio\<lparr>chosen := Recv msg True, set_deadline_res := None, exchange := rw\<rparr> # ios))
              = Returns (Some msg, None)) \<and>
         (\<not> k_cancelled kio \<and> \<not> k_expires kio \<and> \<not> pending d \<and>
          run cfg lis d addr lm (k_run kio) = (Returns (Some msg, None), d', t) \<longrightarrow>
            keepAlive cfg lis addr d lm (kio # kios)
              = after t (keepAlive cfg lis addr d' (Some msg) kios))"
proof -
  obtain err where err: "fst (write lis s rw msg) = Returns (Some err)"
    using write_rejects [OF assms] by blast
  have one: "\<exists>err. fst (write lis s rw msg) = Returns (Some err)"
    using err by blast
  have two: "fst (run_connected cfg lis s c d (Some msg) (io\<lparr>resend := rw\<rparr>))
               = Returns (Some msg, None)"
    using write_failure_returns [OF err] by simp
  have three: "armed d \<longrightarrow>
            fst (message_loop cfg lis s c d
                   (lio\<lparr>chosen := Recv msg True, set_deadline_res := None, exchange := rw\<rparr> # ios))
              = Returns (Some msg, None)"
    using message_loop_write_failure [OF err] by blast
  have four: "\<not> k_cancelled kio \<and> \<not> k_expires kio \<and> \<not> pending d \<and>
          run cfg lis d addr lm (k_run kio) = (Returns (Some msg, None), d', t) \<longrightarrow>
            keepAlive cfg lis addr d lm (kio # kios)
              = after t (keepAlive cfg lis addr d' (Some msg) kios)"
    using keepAlive_continues by blast
  from one two three four show ?thesis by blast
qed

theorem rejected_response_is_transient_witness:
  "unmarshal_res (answers bad_version) = Inr bad_version \<and>
   Version bad_version \<noteq> V1 \<and>
   armed NewTimer \<and>
   \<not> k_cancelled (pass rejected_run) \<and> \<not> k_expires (pass rejected_run) \<and> \<not> pending NewTimer \<and>
   fst (run DefaultClientOptions accepting_listener NewTimer ''peer'' None (k_run (pass rejected_run)))
     = Returns (Some ping, None) \<and>
   (\<exists>err. fst (write accepting_listener plain_session (answers bad_version) ping)
            = Returns (Some err)) \<and>
   fst (run_connected DefaultClientOptions accepting_listener plain_session 7 NewTimer (Some ping)
          (rejected_run\<lparr>resend := answers bad_version\<rparr>))
     = Returns (Some ping, None) \<and>
   fst (message_loop DefaultClientOptions accepting_listener plain_session 7 NewTimer
          [(receives False ping ping_ack)
             \<lparr>chosen := Recv ping True, set_deadline_res := None, exchange := answers bad_version\<rparr>])
     = Returns (Some ping, None) \<and>
   keepAlive DefaultClientOptions accepting_listener ''peer'' NewTimer None [pass rejected_run]
     = after (snd (snd (run DefaultClientOptions accepting_listener NewTimer ''peer'' None
                          (k_run (pass rejected_run)))))
         (keepAlive DefaultClientOptions accepting_listener ''peer''
            (fst (snd (run DefaultClientOptions accepting_listener NewTimer ''peer'' None
                         (k_run (pass rejected_run)))))
            (Some ping) [])"
proof -
  have h1: "unmarshal_res (answers bad_version) = Inr bad_version"
    by (simp add: answers_def)
  have h0: "Version bad_version \<noteq> V1"
    by (simp add: bad_version_def)
  then have h2: "Version bad_version \<noteq> V1 \<or> Type bad_version \<notin> {PingAck, PushAck, PullAck}"
    by blast
  have h3: "armed NewTimer"
    by (simp add: armed_def NewTimer_def)
  have h4: "\<not> k_cancelled (pass rejected_run) \<and> \<not> k_expires (pass rejected_run) \<and> \<not> pending NewTimer"
    by (simp add: pass_def NewTimer_def)
  have h5: "fst (run DefaultClientOptions accepting_listener NewTimer ''peer'' None
                   (k_run (pass rejected_run))) = Returns (Some ping, None)"
    by code_simp
  have h6: "run DefaultClientOptions accepting_listener NewTimer ''peer'' None (k_run (pass rejected_run))
              = (Returns (Some ping, None),
                 fst (snd (run DefaultClientOptions accepting_listener NewTimer ''peer'' None
                             (k_run (pass rejected_run)))),
                 snd (snd (run DefaultClientOptions accepting_listener NewTimer ''peer'' None
                             (k_run (pass rejected_run)))))"
    using h5 by (metis prod.collapse)
  note inst = rejected_response_is_transient [OF h1 h2,
      where lis = accepting_listener and s = plain_session and msg = ping
        and cfg = DefaultClientOptions and c = 7 and d = NewTimer and io = rejected_run
        and lio = "receives False ping ping_ack" and ios = "[]"
        and kio = "pass rejected_run" and kios = "[]" and addr = "''peer''" and lm = None
        and d' = "fst (snd (run DefaultClientOptions accepting_listener NewTimer ''peer'' None
                             (k_run (pass rejected_run))))"
        and t = "snd (snd (run DefaultClientOptions accepting_listener NewTimer ''peer'' None
                             (k_run (pass rejected_run))))"]
  from inst h0 h1 h3 h4 h5 h6 show ?thesis by blast
qed

theorem rejected_response_counterexample:
  "check_response bad_version = Some (CheckingVersion (VersionOther 2)) \<and>
   fst (run DefaultClientOptions accepting_listener NewTimer ''peer'' None rejected_run)
     = Returns (Some ping, None) \<and>
   fst (supervisor DefaultClientOptions accepting_listener ''peer'' [pass rejected_run]) = Blocked \<and>
   snd (supervisor DefaultClientOptions accepting_listener ''peer''
          [pass rejected_run, pass resending_run])
     = [EvDialContext ''peer'' 1, EvHandshake 7, EvDequeue ping, EvTimerStop True,
        EvTimerReset 3600000000000, EvSetDeadline 7, EvEncrypt [1, 2, 3], EvMarshal ping, EvFlush,
        EvUnmarshal, EvConnClose 7,
        EvDialContext ''peer'' 1, EvHandshake 8, EvEncrypt [1, 2, 3], EvMarshal ping, EvFlush,
        EvUnmarshal, EvConnClose 8]"
  by code_simp



text \<open>
  C9. In the events of a supervisor, every dequeue of a message is followed by \<open>Stop\<close> on
  the deadline, by a receive from the timer's channel when \<open>Stop\<close> reported that the timer
  had already expired, and then by \<open>Reset\<close> to TimeToLive; \<open>Reset\<close> occurs nowhere else.
  After this sequence the timer is running and its channel is empty, so no expiry from
  before the \<open>Reset\<close> is left to be received.
\<close>

theorem deadline_stopped_and_drained_before_reset:
  "rearm_run (TimeToLive cfg) Quiet (snd (supervisor cfg lis addr ios)) = Some Quiet \<and>
   (armed d \<longrightarrow> (\<exists>d'. fst (reset_deadline cfg d) = Some d' \<and> running d' \<and> \<not> pending d'))"
proof -
  have "armed NewTimer"
    by (simp add: armed_def NewTimer_def)
  then have one: "rearm_run (TimeToLive cfg) Quiet (snd (supervisor cfg lis addr ios)) = Some Quiet"
    by (simp add: supervisor_def keepAlive_rearm)
  have two: "\<exists>d'. fst (reset_deadline cfg d) = Some d' \<and> running d' \<and> \<not> pending d'" if "armed d"
    using reset_deadline_armed [OF that, of cfg] by force
  from one two show ?thesis by blast
qed

theorem deadline_stopped_and_drained_before_reset_witness:
  "snd (supervisor DefaultClientOptions accepting_listener ''peer'' [pass resending_run])
     = [EvDialContext ''peer'' 1, EvHandshake 8, EvDequeue ping, EvTimerStop False, EvTimerDrain,
        EvTimerReset 3600000000000, EvSetDeadline 8, EvEncrypt [1, 2, 3], EvMarshal ping, EvFlush,
        EvUnmarshal, EvDecrypt [], EvListener PingAck V1 [] []] \<and>
   rearm_run (TimeToLive DefaultClientOptions) Quiet
     (snd (supervisor DefaultClientOptions accepting_listener ''peer'' [pass resending_run]))
     = Some Quiet \<and>
   armed (expire NewTimer) \<and>
   (\<exists>d'. fst (reset_deadline DefaultClientOptions (expire NewTimer)) = Some d' \<and>
         running d' \<and> \<not> pending d')"
proof -
  have h1: "snd (supervisor DefaultClientOptions accepting_listener ''peer'' [pass resending_run])
     = [EvDialContext ''peer'' 1, EvHandshake 8, EvDequeue ping, EvTimerStop False, EvTimerDrain,
        EvTimerReset 3600000000000, EvSetDeadline 8, EvEncrypt [1, 2, 3], EvMarshal ping, EvFlush,
        EvUnmarshal, EvDecrypt [], EvListener PingAck V1 [] []]"
    by code_simp
  have h2: "armed (expire NewTimer)"
    by (simp add: armed_def expire_def NewTimer_def)
  from h1 h2
    deadline_stopped_and_drained_before_reset
      [of DefaultClientOptions accepting_listener "''peer''" "[pass resending_run]" "expire NewTimer"]
  show ?thesis by blast
qed

subsection \<open>The dial loop\<close>

lemma after_after: "after t (after u r) = after (t @ u) r"
  by (simp add: after_def)

lemma after_Nil [simp]: "after [] r = r"
  by (simp add: after_def)

lemma dial_loop_append:
  "fst (dial_loop cfg addr n pre) = Blocked \<Longrightarrow>
     dial_loop cfg addr n (pre @ rest)
       = after (snd (dial_loop cfg addr n pre))
           (dial_loop cfg addr (n + of_nat (length pre)) rest)"
proof (induction pre arbitrary: n)
  case Nil
  then show ?case by simp
next
  case (Cons io pre)
  have n: "n + 1 + of_nat (length pre) = n + of_nat (length (io # pre))"
    by simp
  show ?case
    using Cons.prems Cons.IH [of "n + 1"]
    by (simp only: dial_loop.simps append_Cons Let_def n [symmetric])
       (auto simp: after_after split: option.splits sum.splits prod.splits if_splits)
qed

lemma sle_0_1: "x \<noteq> 0 \<Longrightarrow> word_sle 0 x = word_sle 1 (x :: go_int)"
proof -
  assume "x \<noteq> 0"
  then have "sint x \<noteq> 0" by (simp add: signed_eq_0_iff)
  then show ?thesis by (simp add: word_sle_eq) arith
qed

lemma dial_loop_budget_0_1:
  "k + length ios < 2 ^ 64 \<Longrightarrow>
     dial_loop (cfg\<lparr>MaxDialAttempts := 0\<rparr>) addr (of_nat k) ios
       = dial_loop (cfg\<lparr>MaxDialAttempts := 1\<rparr>) addr (of_nat k) ios"
proof (induction ios arbitrary: k)
  case Nil
  then show ?case by simp
next
  case (Cons io ios)
  have k: "Suc k + length ios < 2 ^ 64" using Cons.prems by simp
  have n: "(of_nat k :: go_int) + 1 = of_nat (Suc k)" by simp
  have "(of_nat (Suc k) :: go_int) \<noteq> 0"
    using k by (intro of_nat_neq_0) simp_all
  then have b: "word_sle 0 (of_nat (Suc k) :: go_int) = word_sle 1 (of_nat (Suc k) :: go_int)"
    by (rule sle_0_1)
  show ?case
    using Cons.IH [OF k] b
    by (simp only: dial_loop.simps n Let_def)
       (simp split: option.split sum.split prod.split)
qed

text \<open>
  C5. The counter of dial attempts is incremented before it is compared with the budget,
  so a dial configured with MaxDialAttempts = 0 gives the same result and the same events
  (the same dial attempts) as one configured with MaxDialAttempts = 1, whatever the loop
  meets. The counter is a 64-bit integer: the statement is for a call of \<open>dial\<close> whose
  loop goes round fewer than \<open>2 ^ 64\<close> times.
\<close>

theorem dial_budget_0_1:
  "length ios < 2 ^ 64 \<Longrightarrow>
     dial (cfg\<lparr>MaxDialAttempts := 0\<rparr>) addr ios = dial (cfg\<lparr>MaxDialAttempts := 1\<rparr>) addr ios"
  using dial_loop_budget_0_1 [of 0 ios cfg addr] by (simp add: dial_def)

theorem dial_budget_0_1_witness:
  "length [unauthenticated 5, refused, connects 6] < 2 ^ 64 \<and>
   dial (DefaultClientOptions\<lparr>MaxDialAttempts := 0\<rparr>) ''peer'' [unauthenticated 5, refused, connects 6]
     = dial (DefaultClientOptions\<lparr>MaxDialAttempts := 1\<rparr>) ''peer''
         [unauthenticated 5, refused, connects 6] \<and>
   dial (DefaultClientOptions\<lparr>MaxDialAttempts := 0\<rparr>) ''peer'' [unauthenticated 5, refused, connects 6]
     = (Returns (Inl (Wrap ''dialing: exceeded max dial attempts'' (External ''connection refused''))),
        [EvDialContext ''peer'' 1, EvHandshake 5, EvConnClose 5,
         EvDialContext ''peer'' 2, EvWaitInnerDone])"
proof -
  have h: "length [unauthenticated 5, refused, connects 6] < 2 ^ 64"
    by simp
  have v: "dial (DefaultClientOptions\<lparr>MaxDialAttempts := 0\<rparr>) ''peer''
             [unauthenticated 5, refused, connects 6]
     = (Returns (Inl (Wrap ''dialing: exceeded max dial attempts'' (External ''connection refused''))),
        [EvDialContext ''peer'' 1, EvHandshake 5, EvConnClose 5,
         EvDialContext ''peer'' 2, EvWaitInnerDone])"
    by (simp add: dial_def unauthenticated_def refused_def DefaultClientOptions_def after_def word_sle_eq)
  from h v dial_budget_0_1 [OF h, of DefaultClientOptions "''peer''"] show ?thesis
    by simp
qed

text \<open>
  C8. Take an iteration of the dial loop that the loop reaches (the iterations before it
  all ended in \<^verbatim>\<open>continue\<close>) with the dial context not done. If its dial fails, the
  loop waits for the end of the inner context, and only then either returns the error
  of the exhausted budget, when the count of attempts has reached MaxDialAttempts, or
  goes on with the next iteration. If its dial succeeds and the handshake fails or gives
  no session, the loop closes the connection and goes on with the next iteration
  whatever the count is: the budget is looked at on the dial-failure path only.
\<close>

theorem dial_failure_waits_then_checks_budget:
  assumes "fst (dial cfg addr pre) = Blocked" and "ctx_err io = None"
  shows "(\<forall>err. dial_res io = Inl err \<longrightarrow>
            dial cfg addr (pre @ io # post)
              = after (snd (dial cfg addr pre)
                        @ [EvDialContext addr (of_nat (length pre) + 1), EvWaitInnerDone])
                  (if word_sle (MaxDialAttempts cfg) (of_nat (length pre) + 1)
                   then (Returns (Inl (Wrap ''dialing: exceeded max dial attempts'' err)), [])
                   else dial_loop cfg addr (of_nat (length pre) + 1) post)) \<and>
         (\<forall>c. dial_res io = Inr c \<and>
               (fst (handshake_res io) = None \<or> snd (handshake_res io) \<noteq> None) \<longrightarrow>
            dial cfg addr (pre @ io # post)
              = after (snd (dial cfg addr pre)
                        @ [EvDialContext addr (of_nat (length pre) + 1), EvHandshake c, EvConnClose c])
                  (dial_loop cfg addr (of_nat (length pre) + 1) post))"
proof -
  have pre: "dial cfg addr (pre @ io # post)
               = after (snd (dial cfg addr pre)) (dial_loop cfg addr (of_nat (length pre)) (io # post))"
    using assms(1) dial_loop_append [of cfg addr 0 pre "io # post"] by (simp add: dial_def)
  have one: "dial cfg addr (pre @ io # post)
              = after (snd (dial cfg addr pre)
                        @ [EvDialContext addr (of_nat (length pre) + 1), EvWaitInnerDone])
                  (if word_sle (MaxDialAttempts cfg) (of_nat (length pre) + 1)
                   then (Returns (Inl (Wrap ''dialing: exceeded max dial attempts'' err)), [])
                   else dial_loop cfg addr (of_nat (length pre) + 1) post)"
    if "dial_res io = Inl err" for err
    using that assms(2) by (simp add: pre Let_def after_def)
  have two: "dial cfg addr (pre @ io # post)
              = after (snd (dial cfg addr pre)
                        @ [EvDialContext addr (of_nat (length pre) + 1), EvHandshake c, EvConnClose c])
                  (dial_loop cfg addr (of_nat (length pre) + 1) post)"
    if "dial_res io = Inr c" and "fst (handshake_res io) = None \<or> snd (handshake_res io) \<noteq> None" for c
    using that assms(2)
    by (cases "handshake_res io") (auto simp: pre Let_def after_def split: option.split)
  from one two show ?thesis by blast
qed

theorem dial_failure_waits_then_checks_budget_witness:
  "fst (dial DefaultClientOptions ''peer'' [unauthenticated 5]) = Blocked \<and>
   ctx_err refused = None \<and> dial_res refused = Inl (External ''connection refused'') \<and>
   ctx_err (unauthenticated 6) = None \<and> dial_res (unauthenticated 6) = Inr 6 \<and>
   snd (handshake_res (unauthenticated 6)) \<noteq> None \<and>
   dial DefaultClientOptions ''peer'' ([unauthenticated 5] @ refused # [connects 7])
     = (Returns (Inl (Wrap ''dialing: exceeded max dial attempts'' (External ''connection refused''))),
        [EvDialContext ''peer'' 1, EvHandshake 5, EvConnClose 5,
         EvDialContext ''peer'' 2, EvWaitInnerDone]) \<and>
   dial DefaultClientOptions ''peer'' ([unauthenticated 5] @ unauthenticated 6 # [connects 7])
     = (Returns (Inr (7, plain_session)),
        [EvDialContext ''peer'' 1, EvHandshake 5, EvConnClose 5,
         EvDialContext ''peer'' 2, EvHandshake 6, EvConnClose 6,
         EvDialContext ''peer'' 3, EvHandshake 7])"
proof -
  have h1: "fst (dial DefaultClientOptions ''peer'' [unauthenticated 5]) = Blocked"
    by (simp add: dial_def unauthenticated_def)
  have h2: "ctx_err refused = None" "dial_res refused = Inl (External ''connection refused'')"
    by (simp_all add: refused_def)
  have h3: "ctx_err (unauthenticated 6) = None" "dial_res (unauthenticated 6) = Inr 6"
    "snd (handshake_res (unauthenticated 6)) \<noteq> None"
    by (simp_all add: unauthenticated_def)
  have t: "snd (dial DefaultClientOptions ''peer'' [unauthenticated 5])
             = [EvDialContext ''peer'' 1, EvHandshake 5, EvConnClose 5]"
    by (simp add: dial_def unauthenticated_def)
  have b: "word_sle (MaxDialAttempts DefaultClientOptions) (of_nat (length [unauthenticated 5]) + 1)"
    by (simp add: DefaultClientOptions_def word_sle_eq)
  have r: "dial_loop DefaultClientOptions ''peer'' (of_nat (length [unauthenticated 5]) + 1) [connects 7]
             = (Returns (Inr (7, plain_session)), [EvDialContext ''peer'' 3, EvHandshake 7])"
    by (simp add: connects_def)
  note a = dial_failure_waits_then_checks_budget [OF h1 h2(1), of "[connects 7]"]
  note c = dial_failure_waits_then_checks_budget [OF h1 h3(1), of "[connects 7]"]
  have one: "dial DefaultClientOptions ''peer'' ([unauthenticated 5] @ refused # [connects 7])
     = (Returns (Inl (Wrap ''dialing: exceeded max dial attempts'' (External ''connection refused''))),
        [EvDialContext ''peer'' 1, EvHandshake 5, EvConnClose 5,
         EvDialContext ''peer'' 2, EvWaitInnerDone])"
    using a h2(2) t b by (simp add: after_def)
  have two: "dial DefaultClientOptions ''peer'' ([unauthenticated 5] @ unauthenticated 6 # [connects 7])
     = (Returns (Inr (7, plain_session)),
        [EvDialContext ''peer'' 1, EvHandshake 5, EvConnClose 5,
         EvDialContext ''peer'' 2, EvHandshake 6, EvConnClose 6,
         EvDialContext ''peer'' 3, EvHandshake 7])"
    using c h3(2,3) t r by (simp add: after_def)
  from h1 h2 h3 one two show ?thesis by blast
qed

subsection \<open>The pool\<close>

lemma length_update_fresh:
  "map_of al k = None \<Longrightarrow> length (AList.update k v al) = Suc (length al)"
  by (induction al) (auto split: if_splits)

lemma enqueue_keeps [simp]:
  "connsByAddr (snd (enqueue io h msg client)) = connsByAddr client"
  "opts (snd (enqueue io h msg client)) = opts client"
  "started (snd (enqueue io h msg client)) = started client"
  "cancelled (snd (enqueue io h msg client)) = cancelled client"
  "mu_locked (snd (enqueue io h msg client)) = mu_locked client"
  by (simp_all add: enqueue_def chan_send_def split: option.split)

lemma enqueue_not_exceeded: "fst (enqueue io h msg client) \<noteq> Returns (Some CapacityExceeded)"
  by (simp add: enqueue_def CapacityExceeded_def split: option.split)

lemma enqueue_error_keeps_queues:
  "fst (enqueue io h msg client) = Returns (Some err) \<Longrightarrow> snd (enqueue io h msg client) = client"
  by (auto simp: enqueue_def split: option.splits if_splits)

lemma enqueue_cancelled:
  "s_ctx io = Some e \<Longrightarrow> \<not> s_pick_send io \<or> \<not> can_send io (ch h) client \<Longrightarrow>
     enqueue io h msg client = (Returns (Some (Context e)), client)"
  by (auto simp: enqueue_def)

lemma enqueue_sends:
  "s_pick_send io \<Longrightarrow> can_send io (ch h) client \<Longrightarrow>
     enqueue io h msg client = (Returns None, chan_send (ch h) msg client)"
  by (simp add: enqueue_def split: option.split)

lemma Send_present:
  "\<not> mu_locked client \<Longrightarrow> map_of (connsByAddr client) addr = Some h \<Longrightarrow>
     Send io addr msg client = enqueue io h msg client"
  by (simp add: Send_def)

lemma Send_full:
  "\<not> mu_locked client \<Longrightarrow> map_of (connsByAddr client) addr = None \<Longrightarrow>
   sint (MaxConnections (opts client)) \<le> int (length (connsByAddr client)) \<Longrightarrow>
     Send io addr msg client = (Returns (Some CapacityExceeded), client)"
  by (simp add: Send_def CapacityExceeded_def)

lemma Send_admits:
  "\<not> mu_locked client \<Longrightarrow> map_of (connsByAddr client) addr = None \<Longrightarrow>
   int (length (connsByAddr client)) < sint (MaxConnections (opts client)) \<Longrightarrow>
   0 \<le> sint (MaxCapacity (opts client)) \<Longrightarrow>
   sint (MaxCapacity (opts client)) \<le> s_chan_max io \<Longrightarrow>
     Send io addr msg client = enqueue io (fresh_conn client) msg (admitted addr client)"
  by (simp add: Send_def runAndKeepAlive_def Let_def fresh_conn_def admitted_def update_conv')

lemma Send_panics:
  "\<not> mu_locked client \<Longrightarrow> map_of (connsByAddr client) addr = None \<Longrightarrow>
   int (length (connsByAddr client)) < sint (MaxConnections (opts client)) \<Longrightarrow>
   sint (MaxCapacity (opts client)) < 0 \<or> s_chan_max io < sint (MaxCapacity (opts client)) \<Longrightarrow>
     Send io addr msg client
       = (Panics ''makechan: size out of range'', client\<lparr>mu_locked := True\<rparr>)"
  by (auto simp: Send_def runAndKeepAlive_def)

lemma Send_locked: "mu_locked client \<Longrightarrow> Send io addr msg client = (Blocked, client)"
  by (simp add: Send_def)

lemma admitted_fields [simp]:
  "opts (admitted addr client) = opts client"
  "mu_locked (admitted addr client) = mu_locked client"
  "cancelled (admitted addr client) = cancelled client"
  "started (admitted addr client) = started client @ [(addr, fresh_conn client)]"
  "connsByAddr (admitted addr client) = AList.update addr (fresh_conn client) (connsByAddr client)"
  by (simp_all add: admitted_def)

text \<open>The four ways through \<open>Send\<close>, for a client whose mutex is free.\<close>

lemma Send_cases [consumes 1, case_names present full panics admits]:
  assumes "\<not> mu_locked client"
  obtains
    (present) h where "map_of (connsByAddr client) addr = Some h"
      "Send io addr msg client = enqueue io h msg client"
  | (full) "map_of (connsByAddr client) addr = None"
      "sint (MaxConnections (opts client)) \<le> int (length (connsByAddr client))"
      "Send io addr msg client = (Returns (Some CapacityExceeded), client)"
  | (panics) "map_of (connsByAddr client) addr = None"
      "int (length (connsByAddr client)) < sint (MaxConnections (opts client))"
      "sint (MaxCapacity (opts client)) < 0 \<or> s_chan_max io < sint (MaxCapacity (opts client))"
      "Send io addr msg client
         = (Panics ''makechan: size out of range'', client\<lparr>mu_locked := True\<rparr>)"
  | (admits) "map_of (connsByAddr client) addr = None"
      "int (length (connsByAddr client)) < sint (MaxConnections (opts client))"
      "0 \<le> sint (MaxCapacity (opts client))"
      "sint (MaxCapacity (opts client)) \<le> s_chan_max io"
      "Send io addr msg client = enqueue io (fresh_conn client) msg (admitted addr client)"
proof (cases "map_of (connsByAddr client) addr")
  case (Some h)
  then show ?thesis using present Send_present [OF assms] by blast
next
  case None
  show ?thesis
  proof (cases "sint (MaxConnections (opts client)) \<le> int (length (connsByAddr client))")
    case True
    then show ?thesis using full None Send_full [OF assms None] by blast
  next
    case False
    then have below: "int (length (connsByAddr client)) < sint (MaxConnections (opts client))"
      by simp
    show ?thesis
    proof (cases "sint (MaxCapacity (opts client)) < 0 \<or>
                  s_chan_max io < sint (MaxCapacity (opts client))")
      case True
      then show ?thesis using panics None below Send_panics [OF assms None below] by blast
    next
      case False
      then have "0 \<le> sint (MaxCapacity (opts client))"
        and "sint (MaxCapacity (opts client)) \<le> s_chan_max io"
        by simp_all
      then show ?thesis using admits None below Send_admits [OF assms None below] by blast
    qed
  qed
qed

lemma Send_opts [simp]: "opts (snd (Send io addr msg client)) = opts client"
proof (cases "mu_locked client")
  case True
  then show ?thesis by (simp add: Send_locked)
next
  case False
  then show ?thesis by (cases rule: Send_cases [of client addr io msg]) simp_all
qed

lemma Send_pool:
  "connsByAddr (snd (Send io addr msg client)) = connsByAddr client \<or>
   (map_of (connsByAddr client) addr = None \<and>
    int (length (connsByAddr client)) < sint (MaxConnections (opts client)) \<and>
    connsByAddr (snd (Send io addr msg client))
      = AList.update addr (fresh_conn client) (connsByAddr client))"
proof (cases "mu_locked client")
  case True
  then show ?thesis by (simp add: Send_locked)
next
  case False
  then show ?thesis by (cases rule: Send_cases [of client addr io msg]) simp_all
qed

lemma Close_fields [simp]:
  "opts (snd (Close addr client)) = opts client"
  "connsByAddr (snd (Close addr client))
     = (if mu_locked client then connsByAddr client else AList.delete addr (connsByAddr client))"
proof -
  show "opts (snd (Close addr client)) = opts client"
    by (simp add: Close_def split: option.split)
  have "AList.delete addr (connsByAddr client) = connsByAddr client"
    if "map_of (connsByAddr client) addr = None"
    using that by (intro delete_id) (simp add: map_of_eq_None_iff)
  then show "connsByAddr (snd (Close addr client))
     = (if mu_locked client then connsByAddr client else AList.delete addr (connsByAddr client))"
    by (simp add: Close_def split: option.split)
qed

lemma CloseAll_fields [simp]:
  "opts (snd (CloseAll client)) = opts client"
  "connsByAddr (snd (CloseAll client)) = (if mu_locked client then connsByAddr client else [])"
  by (simp_all add: CloseAll_def)

lemma call_client_keeps:
  assumes "0 \<le> sint (MaxConnections (opts client))"
    and "distinct (map fst (connsByAddr client))"
    and "int (length (connsByAddr client)) \<le> sint (MaxConnections (opts client))"
  shows "opts (call_client c client) = opts client \<and>
         distinct (map fst (connsByAddr (call_client c client))) \<and>
         int (length (connsByAddr (call_client c client))) \<le> sint (MaxConnections (opts client))"
proof (cases c)
  case (CallSend io addr msg)
  from Send_pool [of io addr msg client] show ?thesis
  proof
    assume "connsByAddr (snd (Send io addr msg client)) = connsByAddr client"
    then show ?thesis using CallSend assms by simp
  next
    assume a: "map_of (connsByAddr client) addr = None \<and>
      int (length (connsByAddr client)) < sint (MaxConnections (opts client)) \<and>
      connsByAddr (snd (Send io addr msg client))
        = AList.update addr (fresh_conn client) (connsByAddr client)"
    then have "length (connsByAddr (snd (Send io addr msg client))) = Suc (length (connsByAddr client))"
      by (simp add: length_update_fresh)
    then show ?thesis using CallSend assms a by (simp add: distinct_update)
  qed
next
  case (CallClose addr)
  have "length (AList.delete addr (connsByAddr client)) \<le> length (connsByAddr client)"
    by (rule length_delete_le)
  then show ?thesis using CallClose assms by (simp add: distinct_delete)
next
  case CallCloseAll
  then show ?thesis using assms by simp
qed

lemma calls_keep:
  assumes "0 \<le> sint (MaxConnections (opts client))"
    and "distinct (map fst (connsByAddr client))"
    and "int (length (connsByAddr client)) \<le> sint (MaxConnections (opts client))"
  shows "opts (calls cs client) = opts client \<and>
         distinct (map fst (connsByAddr (calls cs client))) \<and>
         int (length (connsByAddr (calls cs client))) \<le> sint (MaxConnections (opts client))"
  using assms
proof (induction cs arbitrary: client)
  case Nil
  then show ?case by (simp add: calls_def)
next
  case (Cons c cs)
  have step: "opts (call_client c client) = opts client \<and>
         distinct (map fst (connsByAddr (call_client c client))) \<and>
         int (length (connsByAddr (call_client c client))) \<le> sint (MaxConnections (opts client))"
    using Cons.prems by (rule call_client_keeps)
  have "opts (calls cs (call_client c client)) = opts (call_client c client) \<and>
         distinct (map fst (connsByAddr (calls cs (call_client c client)))) \<and>
         int (length (connsByAddr (calls cs (call_client c client))))
           \<le> sint (MaxConnections (opts (call_client c client)))"
    using step Cons.prems(1) by (intro Cons.IH) simp_all
  then show ?case using step by (simp add: calls_def)
qed

text \<open>
  C2. On a client whose mutex is free: when the address is absent and the pool already
  holds MaxConnections entries or more, \<open>Send\<close> returns the capacity error and the client
  is unchanged; when the address is absent, the pool is below MaxConnections and the
  queue can be made (MaxCapacity is not negative and not above the largest size that
  \<^verbatim>\<open>make\<close> accepts), a supervisor is started and its handle is stored under the
  address, the other addresses keeping theirs; when the
  address is present, \<open>Send\<close> is the enqueue race on the handle found, the pool and the
  supervisors are unchanged, and the result is not the capacity error.
\<close>

theorem Send_admission:
  assumes "\<not> mu_locked client"
  shows "(map_of (connsByAddr client) addr = None \<and>
          sint (MaxConnections (opts client)) \<le> int (length (connsByAddr client)) \<longrightarrow>
            Send io addr msg client = (Returns (Some CapacityExceeded), client)) \<and>
         (map_of (connsByAddr client) addr = None \<and>
          int (length (connsByAddr client)) < sint (MaxConnections (opts client)) \<and>
          0 \<le> sint (MaxCapacity (opts client)) \<and>
          sint (MaxCapacity (opts client)) \<le> s_chan_max io \<longrightarrow>
            started (snd (Send io addr msg client)) = started client @ [(addr, fresh_conn client)] \<and>
            map_of (connsByAddr (snd (Send io addr msg client))) addr = Some (fresh_conn client) \<and>
            (\<forall>a. a \<noteq> addr \<longrightarrow>
               map_of (connsByAddr (snd (Send io addr msg client))) a = map_of (connsByAddr client) a)) \<and>
         (\<forall>h. map_of (connsByAddr client) addr = Some h \<longrightarrow>
            Send io addr msg client = enqueue io h msg client \<and>
            connsByAddr (snd (Send io addr msg client)) = connsByAddr client \<and>
            started (snd (Send io addr msg client)) = started client \<and>
            fst (Send io addr msg client) \<noteq> Returns (Some CapacityExceeded))"
proof -
  have one: "Send io addr msg client = (Returns (Some CapacityExceeded), client)"
    if "map_of (connsByAddr client) addr = None"
      and "sint (MaxConnections (opts client)) \<le> int (length (connsByAddr client))"
    using assms that by (rule Send_full)
  have two: "started (snd (Send io addr msg client)) = started client @ [(addr, fresh_conn client)] \<and>
            map_of (connsByAddr (snd (Send io addr msg client))) addr = Some (fresh_conn client) \<and>
            (\<forall>a. a \<noteq> addr \<longrightarrow>
               map_of (connsByAddr (snd (Send io addr msg client))) a = map_of (connsByAddr client) a)"
    if "map_of (connsByAddr client) addr = None"
      and "int (length (connsByAddr client)) < sint (MaxConnections (opts client))"
      and "0 \<le> sint (MaxCapacity (opts client))"
      and "sint (MaxCapacity (opts client)) \<le> s_chan_max io"
    using Send_admits [OF assms that] by (simp add: update_conv')
  have three: "Send io addr msg client = enqueue io h msg client \<and>
            connsByAddr (snd (Send io addr msg client)) = connsByAddr client \<and>
            started (snd (Send io addr msg client)) = started client \<and>
            fst (Send io addr msg client) \<noteq> Returns (Some CapacityExceeded)"
    if "map_of (connsByAddr client) addr = Some h" for h
    using Send_present [OF assms that] enqueue_not_exceeded [of io h msg client] by simp
  from one two three show ?thesis by blast
qed

theorem Send_admission_witness:
  "\<not> mu_locked (NewClient (DefaultClientOptions\<lparr>MaxConnections := 1\<rparr>)) \<and>
   map_of (connsByAddr (NewClient (DefaultClientOptions\<lparr>MaxConnections := 1\<rparr>))) ''a'' = None \<and>
   started (snd (Send waiting ''a'' ping (NewClient (DefaultClientOptions\<lparr>MaxConnections := 1\<rparr>))))
     = [(''a'', \<lparr>ch = 0, cancel = 0\<rparr>)] \<and>
   map_of (connsByAddr (snd (Send waiting ''a'' ping
                               (NewClient (DefaultClientOptions\<lparr>MaxConnections := 1\<rparr>))))) ''a''
     = Some \<lparr>ch = 0, cancel = 0\<rparr> \<and>
   Send waiting ''b'' ping
       (snd (Send waiting ''a'' ping (NewClient (DefaultClientOptions\<lparr>MaxConnections := 1\<rparr>))))
     = (Returns (Some CapacityExceeded),
        snd (Send waiting ''a'' ping (NewClient (DefaultClientOptions\<lparr>MaxConnections := 1\<rparr>)))) \<and>
   Send waiting ''a'' ping
       (snd (Send waiting ''a'' ping (NewClient (DefaultClientOptions\<lparr>MaxConnections := 1\<rparr>))))
     = enqueue waiting \<lparr>ch = 0, cancel = 0\<rparr> ping
         (snd (Send waiting ''a'' ping (NewClient (DefaultClientOptions\<lparr>MaxConnections := 1\<rparr>)))) \<and>
   0 \<le> sint (MaxCapacity (DefaultClientOptions\<lparr>MaxConnections := 1\<rparr>)) \<and>
   sint (MaxCapacity (DefaultClientOptions\<lparr>MaxConnections := 1\<rparr>)) \<le> s_chan_max waiting \<and>
   s_chan_max waiting < sint (MaxCapacity oversized) \<and>
   Send waiting ''a'' ping (NewClient oversized)
     = (Panics ''makechan: size out of range'', (NewClient oversized)\<lparr>mu_locked := True\<rparr>)"
proof -
  define c0 where "c0 = NewClient (DefaultClientOptions\<lparr>MaxConnections := 1\<rparr>)"
  define c1 where "c1 = snd (Send waiting ''a'' ping c0)"
  have f0: "\<not> mu_locked c0" "map_of (connsByAddr c0) ''a'' = None"
    "int (length (connsByAddr c0)) < sint (MaxConnections (opts c0))"
    "0 \<le> sint (MaxCapacity (opts c0))" "sint (MaxCapacity (opts c0)) \<le> s_chan_max waiting"
    "fresh_conn c0 = \<lparr>ch = 0, cancel = 0\<rparr>"
    by (simp_all add: c0_def NewClient_def DefaultClientOptions_def fresh_conn_def waiting_def)
  have s0: "started (snd (Send waiting ''a'' ping c0)) = [(''a'', \<lparr>ch = 0, cancel = 0\<rparr>)] \<and>
            map_of (connsByAddr (snd (Send waiting ''a'' ping c0))) ''a'' = Some \<lparr>ch = 0, cancel = 0\<rparr>"
    using Send_admission [OF f0(1), of "''a''" waiting ping] f0
    by (simp add: c0_def NewClient_def)
  have p1: "connsByAddr c1 = [(''a'', \<lparr>ch = 0, cancel = 0\<rparr>)]" "opts c1 = opts c0" "\<not> mu_locked c1"
    using Send_admits [OF f0(1-5), of ping] f0(6)
    by (simp_all add: c1_def c0_def NewClient_def)
  have f1: "map_of (connsByAddr c1) ''b'' = None"
    "sint (MaxConnections (opts c1)) \<le> int (length (connsByAddr c1))"
    "map_of (connsByAddr c1) ''a'' = Some \<lparr>ch = 0, cancel = 0\<rparr>"
    by (simp_all add: p1 c0_def NewClient_def DefaultClientOptions_def)
  have s1: "Send waiting ''b'' ping c1 = (Returns (Some CapacityExceeded), c1)"
    using Send_admission [OF p1(3), of "''b''" waiting ping] f1 by blast
  have s2: "Send waiting ''a'' ping c1 = enqueue waiting \<lparr>ch = 0, cancel = 0\<rparr> ping c1"
    using Send_admission [OF p1(3), of "''a''" waiting ping] f1 by blast
  have big: "0 \<le> sint (MaxCapacity (DefaultClientOptions\<lparr>MaxConnections := 1\<rparr>))"
    "sint (MaxCapacity (DefaultClientOptions\<lparr>MaxConnections := 1\<rparr>)) \<le> s_chan_max waiting"
    "s_chan_max waiting < sint (MaxCapacity oversized)"
    by (simp_all add: DefaultClientOptions_def oversized_def waiting_def)
  have s3: "Send waiting ''a'' ping (NewClient oversized)
     = (Panics ''makechan: size out of range'', (NewClient oversized)\<lparr>mu_locked := True\<rparr>)"
    using big(3)
    by (intro Send_panics) (simp_all add: NewClient_def oversized_def DefaultClientOptions_def)
  from f0(1,2) s0 s1 s2 big s3 show ?thesis
    unfolding c1_def c0_def by blast
qed

text \<open>
  C3. Starting from a new client whose MaxConnections is not negative, after any
  sequence of calls of \<open>Send\<close>, \<open>Close\<close> and \<open>CloseAll\<close> the pool holds at most
  MaxConnections entries, and no two of its entries have the same address.
\<close>

theorem pool_bounded:
  assumes "0 \<le> sint (MaxConnections options)"
  shows "int (length (connsByAddr (calls cs (NewClient options)))) \<le> sint (MaxConnections options) \<and>
         distinct (map fst (connsByAddr (calls cs (NewClient options))))"
proof -
  have "opts (NewClient options) = options" "connsByAddr (NewClient options) = []"
    by (simp_all add: NewClient_def)
  then show ?thesis
    using assms calls_keep [of "NewClient options" cs] by simp
qed

theorem pool_bounded_witness:
  "0 \<le> sint (MaxConnections (DefaultClientOptions\<lparr>MaxConnections := 1\<rparr>)) \<and>
   map fst (connsByAddr
     (calls [CallSend waiting ''a'' ping, CallSend waiting ''b'' ping, CallClose ''a'',
             CallSend losing ''b'' ping, CallSend waiting ''a'' ping]
        (NewClient (DefaultClientOptions\<lparr>MaxConnections := 1\<rparr>)))) = [''b''] \<and>
   int (length (connsByAddr
     (calls [CallSend waiting ''a'' ping, CallSend waiting ''b'' ping, CallClose ''a'',
             CallSend losing ''b'' ping, CallSend waiting ''a'' ping]
        (NewClient (DefaultClientOptions\<lparr>MaxConnections := 1\<rparr>)))))
     \<le> sint (MaxConnections (DefaultClientOptions\<lparr>MaxConnections := 1\<rparr>)) \<and>
   distinct (map fst (connsByAddr
     (calls [CallSend waiting ''a'' ping, CallSend waiting ''b'' ping, CallClose ''a'',
             CallSend losing ''b'' ping, CallSend waiting ''a'' ping]
        (NewClient (DefaultClientOptions\<lparr>MaxConnections := 1\<rparr>)))))"
proof -
  have h: "0 \<le> sint (MaxConnections (DefaultClientOptions\<lparr>MaxConnections := 1\<rparr>))"
    by simp
  have v: "map fst (connsByAddr
     (calls [CallSend waiting ''a'' ping, CallSend waiting ''b'' ping, CallClose ''a'',
             CallSend losing ''b'' ping, CallSend waiting ''a'' ping]
        (NewClient (DefaultClientOptions\<lparr>MaxConnections := 1\<rparr>)))) = [''b'']"
    by code_simp
  from h v pool_bounded [OF h] show ?thesis by blast
qed

text \<open>
  C4, as amended. On a client whose mutex is free, take a call of \<open>Send\<close> that reaches
  the enqueue race with its context already cancelled: the address is present, or it
  is admitted (the pool is below MaxConnections and MaxCapacity is a size that
  \<^verbatim>\<open>make\<close> accepts). If the queue cannot accept the message, or the \<^verbatim>\<open>select\<close> does
  not take the send case although it can, \<open>Send\<close> returns the cancellation error and
  leaves the client as the race found it: the message is not enqueued. If the queue can
  accept the message and the \<^verbatim>\<open>select\<close> takes the send case, \<open>Send\<close> enqueues the
  message and returns nil. And whenever \<open>Send\<close> returns an error, every queue is as it
  was, or is the empty queue of the supervisor just started.
\<close>

theorem Send_cancelled:
  assumes "\<not> mu_locked client" and "s_ctx io = Some e"
  shows "(\<forall>h. map_of (connsByAddr client) addr = Some h \<and>
              (\<not> s_pick_send io \<or> \<not> can_send io (ch h) client) \<longrightarrow>
            Send io addr msg client = (Returns (Some (Context e)), client)) \<and>
         (map_of (connsByAddr client) addr = None \<and>
          int (length (connsByAddr client)) < sint (MaxConnections (opts client)) \<and>
          0 \<le> sint (MaxCapacity (opts client)) \<and>
          sint (MaxCapacity (opts client)) \<le> s_chan_max io \<and>
          (\<not> s_pick_send io \<or> \<not> can_send io (ch (fresh_conn client)) (admitted addr client)) \<longrightarrow>
            Send io addr msg client = (Returns (Some (Context e)), admitted addr client)) \<and>
         (\<forall>h. map_of (connsByAddr client) addr = Some h \<and>
              s_pick_send io \<and> can_send io (ch h) client \<longrightarrow>
            Send io addr msg client = (Returns None, chan_send (ch h) msg client)) \<and>
         (map_of (connsByAddr client) addr = None \<and>
          int (length (connsByAddr client)) < sint (MaxConnections (opts client)) \<and>
          0 \<le> sint (MaxCapacity (opts client)) \<and>
          sint (MaxCapacity (opts client)) \<le> s_chan_max io \<and>
          s_pick_send io \<and> can_send io (ch (fresh_conn client)) (admitted addr client) \<longrightarrow>
            Send io addr msg client
              = (Returns None, chan_send (ch (fresh_conn client)) msg (admitted addr client))) \<and>
         (\<forall>err n. fst (Send io addr msg client) = Returns (Some err) \<longrightarrow>
            chans (snd (Send io addr msg client)) n = chans client n \<or>
            chans (snd (Send io addr msg client)) n
              = Some \<lparr>buf = [], capacity = nat (sint (MaxCapacity (opts client)))\<rparr>)"
proof -
  have one: "Send io addr msg client = (Returns (Some (Context e)), client)"
    if "map_of (connsByAddr client) addr = Some h"
      and "\<not> s_pick_send io \<or> \<not> can_send io (ch h) client" for h
    using that Send_present [OF assms(1) that(1)] enqueue_cancelled [OF assms(2) that(2)] by simp
  have two: "Send io addr msg client = (Returns (Some (Context e)), admitted addr client)"
    if "map_of (connsByAddr client) addr = None"
      and "int (length (connsByAddr client)) < sint (MaxConnections (opts client))"
      and "0 \<le> sint (MaxCapacity (opts client))"
      and "sint (MaxCapacity (opts client)) \<le> s_chan_max io"
      and "\<not> s_pick_send io \<or> \<not> can_send io (ch (fresh_conn client)) (admitted addr client)"
    using Send_admits [OF assms(1) that(1-4)] enqueue_cancelled [OF assms(2) that(5)] by simp
  have three: "Send io addr msg client = (Returns None, chan_send (ch h) msg client)"
    if "map_of (connsByAddr client) addr = Some h"
      and "s_pick_send io" and "can_send io (ch h) client" for h
    using Send_present [OF assms(1) that(1)] enqueue_sends [OF that(2,3)] by simp
  have four: "Send io addr msg client
                = (Returns None, chan_send (ch (fresh_conn client)) msg (admitted addr client))"
    if "map_of (connsByAddr client) addr = None"
      and "int (length (connsByAddr client)) < sint (MaxConnections (opts client))"
      and "0 \<le> sint (MaxCapacity (opts client))"
      and "sint (MaxCapacity (opts client)) \<le> s_chan_max io"
      and "s_pick_send io" and "can_send io (ch (fresh_conn client)) (admitted addr client)"
    using Send_admits [OF assms(1) that(1-4)] enqueue_sends [OF that(5,6)] by simp
  have five: "chans (snd (Send io addr msg client)) n = chans client n \<or>
            chans (snd (Send io addr msg client)) n
              = Some \<lparr>buf = [], capacity = nat (sint (MaxCapacity (opts client)))\<rparr>"
    if r: "fst (Send io addr msg client) = Returns (Some err)" for err n
    using assms(1)
  proof (cases rule: Send_cases [of client addr io msg])
    case (present h)
    then show ?thesis using r enqueue_error_keeps_queues [of io h msg client err] by simp
  next
    case full
    then show ?thesis by simp
  next
    case panics
    then show ?thesis using r by simp
  next
    case admits
    then have "snd (Send io addr msg client) = admitted addr client"
      using r enqueue_error_keeps_queues [of io "fresh_conn client" msg "admitted addr client" err]
      by simp
    then show ?thesis by (simp add: admitted_def)
  qed
  show ?thesis
  proof (intro conjI impI allI)
    fix h
    assume "map_of (connsByAddr client) addr = Some h \<and>
      (\<not> s_pick_send io \<or> \<not> can_send io (ch h) client)"
    then have "map_of (connsByAddr client) addr = Some h"
      and "\<not> s_pick_send io \<or> \<not> can_send io (ch h) client"
      by simp_all
    then show "Send io addr msg client = (Returns (Some (Context e)), client)"
      by (rule one)
  next
    assume "map_of (connsByAddr client) addr = None \<and>
      int (length (connsByAddr client)) < sint (MaxConnections (opts client)) \<and>
      0 \<le> sint (MaxCapacity (opts client)) \<and>
      sint (MaxCapacity (opts client)) \<le> s_chan_max io \<and>
      (\<not> s_pick_send io \<or> \<not> can_send io (ch (fresh_conn client)) (admitted addr client))"
    then have "map_of (connsByAddr client) addr = None"
      and "int (length (connsByAddr client)) < sint (MaxConnections (opts client))"
      and "0 \<le> sint (MaxCapacity (opts client))"
      and "sint (MaxCapacity (opts client)) \<le> s_chan_max io"
      and "\<not> s_pick_send io \<or> \<not> can_send io (ch (fresh_conn client)) (admitted addr client)"
      by simp_all
    then show "Send io addr msg client = (Returns (Some (Context e)), admitted addr client)"
      by (rule two)
  next
    fix h
    assume "map_of (connsByAddr client) addr = Some h \<and>
      s_pick_send io \<and> can_send io (ch h) client"
    then have "map_of (connsByAddr client) addr = Some h"
      and "s_pick_send io" and "can_send io (ch h) client"
      by simp_all
    then show "Send io addr msg client = (Returns None, chan_send (ch h) msg client)"
      by (rule three)
  next
    assume "map_of (connsByAddr client) addr = None \<and>
      int (length (connsByAddr client)) < sint (MaxConnections (opts client)) \<and>
      0 \<le> sint (MaxCapacity (opts client)) \<and>
      sint (MaxCapacity (opts client)) \<le> s_chan_max io \<and>
      s_pick_send io \<and> can_send io (ch (fresh_conn client)) (admitted addr client)"
    then have "map_of (connsByAddr client) addr = None"
      and "int (length (connsByAddr client)) < sint (MaxConnections (opts client))"
      and "0 \<le> sint (MaxCapacity (opts client))"
      and "sint (MaxCapacity (opts client)) \<le> s_chan_max io"
      and "s_pick_send io" and "can_send io (ch (fresh_conn client)) (admitted addr client)"
      by simp_all
    then show "Send io addr msg client
                 = (Returns None, chan_send (ch (fresh_conn client)) msg (admitted addr client))"
      by (rule four)
  next
    fix err n
    assume "fst (Send io addr msg client) = Returns (Some err)"
    then show "chans (snd (Send io addr msg client)) n = chans client n \<or>
            chans (snd (Send io addr msg client)) n
              = Some \<lparr>buf = [], capacity = nat (sint (MaxCapacity (opts client)))\<rparr>"
      by (rule five)
  qed
qed

theorem Send_cancelled_witness:
  "\<not> mu_locked (NewClient DefaultClientOptions) \<and>
   s_ctx losing = Some Canceled \<and> \<not> s_pick_send losing \<and>
   s_ctx racing = Some Canceled \<and> s_pick_send racing \<and>
   can_send racing (ch (fresh_conn (NewClient DefaultClientOptions)))
     (admitted ''peer'' (NewClient DefaultClientOptions)) \<and>
   map_of (connsByAddr (NewClient DefaultClientOptions)) ''peer'' = None \<and>
   int (length (connsByAddr (NewClient DefaultClientOptions)))
     < sint (MaxConnections (opts (NewClient DefaultClientOptions))) \<and>
   0 \<le> sint (MaxCapacity (opts (NewClient DefaultClientOptions))) \<and>
   sint (MaxCapacity (opts (NewClient DefaultClientOptions))) \<le> s_chan_max losing \<and>
   sint (MaxCapacity (opts (NewClient DefaultClientOptions))) \<le> s_chan_max racing \<and>
   Send losing ''peer'' ping (NewClient DefaultClientOptions)
     = (Returns (Some (Context Canceled)), admitted ''peer'' (NewClient DefaultClientOptions)) \<and>
   chans (admitted ''peer'' (NewClient DefaultClientOptions)) 0 = Some \<lparr>buf = [], capacity = 4096\<rparr> \<and>
   map_of (connsByAddr (admitted ''peer'' (NewClient DefaultClientOptions))) ''peer''
     = Some \<lparr>ch = 0, cancel = 0\<rparr> \<and>
   Send losing ''peer'' ping (admitted ''peer'' (NewClient DefaultClientOptions))
     = (Returns (Some (Context Canceled)), admitted ''peer'' (NewClient DefaultClientOptions)) \<and>
   Send racing ''peer'' ping (NewClient DefaultClientOptions)
     = (Returns None,
        chan_send (ch (fresh_conn (NewClient DefaultClientOptions))) ping
          (admitted ''peer'' (NewClient DefaultClientOptions)))"
proof -
  have h: "\<not> mu_locked (NewClient DefaultClientOptions)"
    "s_ctx losing = Some Canceled" "\<not> s_pick_send losing"
    "map_of (connsByAddr (NewClient DefaultClientOptions)) ''peer'' = None"
    "int (length (connsByAddr (NewClient DefaultClientOptions)))
       < sint (MaxConnections (opts (NewClient DefaultClientOptions)))"
    "0 \<le> sint (MaxCapacity (opts (NewClient DefaultClientOptions)))"
    "sint (MaxCapacity (opts (NewClient DefaultClientOptions))) \<le> s_chan_max losing"
    by (simp_all add: NewClient_def DefaultClientOptions_def losing_def)
  have g: "s_ctx racing = Some Canceled" "s_pick_send racing"
    "sint (MaxCapacity (opts (NewClient DefaultClientOptions))) \<le> s_chan_max racing"
    "can_send racing (ch (fresh_conn (NewClient DefaultClientOptions)))
       (admitted ''peer'' (NewClient DefaultClientOptions))"
    by (simp_all add: NewClient_def DefaultClientOptions_def racing_def can_send_def admitted_def
          fresh_conn_def)
  have a: "\<not> mu_locked (admitted ''peer'' (NewClient DefaultClientOptions))"
    "chans (admitted ''peer'' (NewClient DefaultClientOptions)) 0 = Some \<lparr>buf = [], capacity = 4096\<rparr>"
    "map_of (connsByAddr (admitted ''peer'' (NewClient DefaultClientOptions))) ''peer''
       = Some \<lparr>ch = 0, cancel = 0\<rparr>"
    by (simp_all add: admitted_def NewClient_def DefaultClientOptions_def fresh_conn_def)
  note fresh = Send_cancelled [OF h(1) h(2), of "''peer''" ping]
  note again = Send_cancelled [OF a(1) h(2), of "''peer''" ping]
  note race = Send_cancelled [OF h(1) g(1), of "''peer''" ping]
  have one: "Send losing ''peer'' ping (NewClient DefaultClientOptions)
     = (Returns (Some (Context Canceled)), admitted ''peer'' (NewClient DefaultClientOptions))"
    using fresh h by blast
  have two: "Send losing ''peer'' ping (admitted ''peer'' (NewClient DefaultClientOptions))
     = (Returns (Some (Context Canceled)), admitted ''peer'' (NewClient DefaultClientOptions))"
    using again a(3) h(3) by blast
  have three: "Send racing ''peer'' ping (NewClient DefaultClientOptions)
     = (Returns None,
        chan_send (ch (fresh_conn (NewClient DefaultClientOptions))) ping
          (admitted ''peer'' (NewClient DefaultClientOptions)))"
    using race h(4,5,6) g by blast
  from h g a one two three show ?thesis by blast
qed

theorem Send_cancelled_counterexample:
  "s_ctx racing = Some Canceled \<and>
   fst (Send racing ''peer'' ping (NewClient DefaultClientOptions)) = Returns None \<and>
   map_option buf (chans (snd (Send racing ''peer'' ping (NewClient DefaultClientOptions))) 0)
     = Some [ping]"
  by (simp add: racing_def Send_def runAndKeepAlive_def NewClient_def DefaultClientOptions_def
        enqueue_def can_send_def chan_send_def Let_def)

text \<open>
  C10. When \<open>Send\<close> to an address that is absent from the pool returns a cancellation
  error, the call was admitted: it is the enqueue race run on the client in which the
  supervisor is already started and its handle already stored under the address, and
  the client it leaves still holds that handle and that supervisor. No context was
  cancelled by the call, so the supervisor is live.
\<close>

theorem cancelled_Send_keeps_supervisor:
  assumes "\<not> mu_locked client" and "map_of (connsByAddr client) addr = None"
    and "fst (Send io addr msg client) = Returns (Some (Context e))"
  shows "Send io addr msg client = enqueue io (fresh_conn client) msg (admitted addr client) \<and>
         map_of (connsByAddr (admitted addr client)) addr = Some (fresh_conn client) \<and>
         started (admitted addr client) = started client @ [(addr, fresh_conn client)] \<and>
         map_of (connsByAddr (snd (Send io addr msg client))) addr = Some (fresh_conn client) \<and>
         started (snd (Send io addr msg client)) = started client @ [(addr, fresh_conn client)] \<and>
         length (connsByAddr (snd (Send io addr msg client))) = Suc (length (connsByAddr client)) \<and>
         cancelled (snd (Send io addr msg client)) = cancelled client"
  using assms(1)
proof (cases rule: Send_cases [of client addr io msg])
  case (present h)
  then show ?thesis using assms(2) by simp
next
  case full
  then show ?thesis using assms(3) by (simp add: CapacityExceeded_def)
next
  case panics
  then show ?thesis using assms(3) by simp
next
  case admits
  then show ?thesis
    using assms(2) by (simp add: update_conv' length_update_fresh)
qed

theorem cancelled_Send_keeps_supervisor_witness:
  "\<not> mu_locked (NewClient DefaultClientOptions) \<and>
   map_of (connsByAddr (NewClient DefaultClientOptions)) ''peer'' = None \<and>
   fst (Send losing ''peer'' ping (NewClient DefaultClientOptions)) = Returns (Some (Context Canceled)) \<and>
   map_of (connsByAddr (snd (Send losing ''peer'' ping (NewClient DefaultClientOptions)))) ''peer''
     = Some \<lparr>ch = 0, cancel = 0\<rparr> \<and>
   started (snd (Send losing ''peer'' ping (NewClient DefaultClientOptions)))
     = [(''peer'', \<lparr>ch = 0, cancel = 0\<rparr>)] \<and>
   length (connsByAddr (snd (Send losing ''peer'' ping (NewClient DefaultClientOptions)))) = 1"
proof -
  have h: "\<not> mu_locked (NewClient DefaultClientOptions)"
    "map_of (connsByAddr (NewClient DefaultClientOptions)) ''peer'' = None"
    by (simp_all add: NewClient_def)
  have r: "fst (Send losing ''peer'' ping (NewClient DefaultClientOptions))
             = Returns (Some (Context Canceled))"
    by (simp add: Send_def runAndKeepAlive_def NewClient_def DefaultClientOptions_def enqueue_def
          Let_def losing_def)
  have f: "fresh_conn (NewClient DefaultClientOptions) = \<lparr>ch = 0, cancel = 0\<rparr>"
    "started (NewClient DefaultClientOptions) = []"
    "connsByAddr (NewClient DefaultClientOptions) = []"
    by (simp_all add: NewClient_def fresh_conn_def)
  from cancelled_Send_keeps_supervisor [OF h r] h r f show ?thesis
    by simp
qed

end
